theory Spec2Isabelle
  imports Complex_Main "HOL-Library.Sublist" "HOL-Library.AList"
begin

section \<open>Account types (backend/constants.py)\<close>

text \<open>
  The account type of the ledger is a string (the value of \<open>account.accttype\<close>).
  The frozensets of class \<open>AccountType\<close> are lists here; membership is \<open>\<in> set\<close>.
\<close>

definition PL_TYPES :: "string list" where
  "PL_TYPES = [''Income'', ''OthIncome'', ''COGS'', ''Cost of Goods Sold'', ''Expense'', ''OthExpense'']"

definition BS_ASSET_TYPES :: "string list" where
  "BS_ASSET_TYPES = [''Bank'', ''AcctRec'', ''OthCurrAsset'', ''FixedAsset'', ''OthAsset'',
     ''DeferExpense'', ''UnbilledRec'']"

definition BS_LIABILITY_TYPES :: "string list" where
  "BS_LIABILITY_TYPES = [''AcctPay'', ''CredCard'', ''OthCurrLiab'', ''LongTermLiab'', ''DeferRevenue'']"

definition BS_EQUITY_TYPES :: "string list" where
  "BS_EQUITY_TYPES = [''Equity'', ''RetainedEarnings'']"

definition SIGN_FLIP_TYPES :: "string list" where
  "SIGN_FLIP_TYPES = [''AcctPay'', ''CredCard'', ''OthCurrLiab'', ''LongTermLiab'', ''DeferRevenue'',
     ''Equity'', ''RetainedEarnings'']"

definition NON_FINANCIAL_TYPES :: "string list" where
  "NON_FINANCIAL_TYPES = [''NonPosting'', ''Stat'']"

definition INCOME_TYPES :: "string list" where
  "INCOME_TYPES = [''Income'', ''OthIncome'']"

text \<open>\<open>AccountType.is_balance_sheet\<close>, and \<open>is_balance_sheet_account\<close> of server.py that calls it.\<close>

definition is_balance_sheet :: "string \<Rightarrow> bool" where
  "is_balance_sheet accttype \<longleftrightarrow> accttype \<notin> set PL_TYPES \<and> accttype \<notin> set NON_FINANCIAL_TYPES"

definition is_balance_sheet_account :: "string \<Rightarrow> bool" where
  "is_balance_sheet_account accttype = is_balance_sheet accttype"

section \<open>The ledger client's results\<close>

text \<open>
  \<open>query_netsuite\<close> returns the list of rows of the answer, or the dictionary
  \<open>{'error': e, 'details': d}\<close> (without \<open>details\<close> when the request itself raised).
  It catches every exception of the request, so it never raises.
  Amounts are Python floats in the source; they are exact reals here, so the theorems
  below are about the formulas and the control flow, not about rounding.
\<close>

datatype 'row qresult = Rows "'row list" | Error string "string option"

text \<open>A cell of a row that the code reads as a number: SQL NULL (or a missing column),
  a number, or text on which \<open>float\<close> raises.\<close>

datatype cell = Null | Num real | Garbage

record value_row =
  val :: cell

section \<open>Retry on rate limit (query\_with\_retry, query\_with\_retry\_re)\<close>

text \<open>What one call of the retry wrapper does, in order: executions of the query and sleeps
  (in seconds).\<close>

datatype event = Attempt nat | Sleep nat

definition rate_limited :: "'row qresult \<Rightarrow> bool" where
  "rate_limited r = (case r of
      Rows _ \<Rightarrow> False
    | Error e d \<Rightarrow> (let error_str = (case d of None \<Rightarrow> [] | Some s \<Rightarrow> s)
                   in sublist ''CONCURRENCY_LIMIT_EXCEEDED'' error_str \<or> sublist ''429'' error_str))"

text \<open>
  The body of \<open>for attempt in range(max_retries)\<close>, over the list of the attempts left.
  \<open>run n\<close> is the ledger's answer to the \<open>n\<close>-th execution of the query. The third
  argument is the variable \<open>result\<close> (unbound before the first execution), which is
  returned after the loop.
\<close>

fun retry_loop :: "nat list \<Rightarrow> (nat \<Rightarrow> 'row qresult) \<Rightarrow> 'row qresult option \<Rightarrow> event list
    \<Rightarrow> 'row qresult option \<times> event list" where
  "retry_loop [] run result trace = (result, trace)"
| "retry_loop (attempt # rest) run result trace =
     (let result' = run attempt in
      if rate_limited result'
      then retry_loop rest run (Some result') (trace @ [Attempt attempt, Sleep ((attempt + 1) * 2)])
      else (Some result', trace @ [Attempt attempt]))"

definition query_with_retry :: "(nat \<Rightarrow> 'row qresult) \<Rightarrow> 'row qresult option \<times> event list" where
  "query_with_retry run = retry_loop [0..<3] run None []"

definition query_with_retry_re :: "(nat \<Rightarrow> 'row qresult) \<Rightarrow> 'row qresult option \<times> event list" where
  "query_with_retry_re run = retry_loop [0..<3] run None []"



section \<open>Derived metrics: CTA and Retained Earnings\<close>

datatype component = total_assets | total_liabilities | posted_equity | prior_pl | posted_re | net_income

definition component_name :: "component \<Rightarrow> string" where
  "component_name c = (case c of total_assets \<Rightarrow> ''total_assets''
     | total_liabilities \<Rightarrow> ''total_liabilities'' | posted_equity \<Rightarrow> ''posted_equity''
     | prior_pl \<Rightarrow> ''prior_pl'' | posted_re \<Rightarrow> ''posted_re'' | net_income \<Rightarrow> ''net_income'')"

text \<open>
  The body of the \<open>try\<close> in the \<open>as_completed\<close> loops, up to the parsed value:
  \<open>Some v\<close> when the body reaches its end with \<open>value = v\<close>, \<open>None\<close> when it raises
  (\<open>float\<close> on text that is no number, or the future itself raising), and the messages
  that the body or the \<open>except\<close> clause append to \<open>query_errors\<close>.
  A result that is an error dictionary leaves \<open>value = 0.0\<close>.
\<close>

definition parse_component :: "string \<Rightarrow> value_row qresult option \<Rightarrow> real option \<times> string list" where
  "parse_component name result = (case result of
      None \<Rightarrow> (None, [name @ '': result referenced before assignment''])
    | Some (Error e d) \<Rightarrow> (Some 0, [name @ '': '' @ (case d of Some s \<Rightarrow> s | None \<Rightarrow> e)])
    | Some (Rows []) \<Rightarrow> (Some 0, [])
    | Some (Rows (r # _)) \<Rightarrow> (case val r of
          Null \<Rightarrow> (Some 0, [])
        | Num v \<Rightarrow> (Some v, [])
        | Garbage \<Rightarrow> (None, [name @ '': could not convert string to float''])))"

text \<open>
  The \<open>as_completed\<close> loop of \<open>calculate_cta\<close>: the futures complete in some order
  \<open>order\<close>; each one stores its value in the dictionary \<open>results\<close> (0.0 when the body
  raised) and may append to \<open>query_errors\<close>.
\<close>

fun collect_results :: "component list \<Rightarrow> (component \<Rightarrow> nat \<Rightarrow> value_row qresult)
    \<Rightarrow> (component \<rightharpoonup> real) \<Rightarrow> string list \<Rightarrow> (component \<rightharpoonup> real) \<times> string list" where
  "collect_results [] ledger results query_errors = (results, query_errors)"
| "collect_results (name # rest) ledger results query_errors =
     (case parse_component (component_name name) (fst (query_with_retry (ledger name))) of
        (Some v, errs) \<Rightarrow> collect_results rest ledger (results(name \<mapsto> v)) (query_errors @ errs)
      | (None, errs) \<Rightarrow> collect_results rest ledger (results(name \<mapsto> 0)) (query_errors @ errs))"

definition get_or :: "('k \<rightharpoonup> 'v) \<Rightarrow> 'k \<Rightarrow> 'v \<Rightarrow> 'v" where
  "get_or m k d = (case m k of None \<Rightarrow> d | Some v \<Rightarrow> v)"

record cta_components =
  c_total_assets :: real
  c_total_liabilities :: real
  c_total_equity :: real
  c_posted_equity :: real
  c_retained_earnings :: real
  c_net_income :: real

text \<open>The JSON payload of a successful \<open>/cta\<close> call: exactly the keys \<open>value\<close>, \<open>period\<close>
  and \<open>components\<close>.\<close>

record cta_payload =
  cta_value :: real
  cta_period :: string
  cta_comps :: cta_components

datatype 'p response = Ok 'p | Failed nat string

text \<open>
  \<open>calculate_cta\<close> from the point where the period has been looked up:
  \<open>fy_found\<close> says whether \<open>get_fiscal_year_for_period\<close> found the period (HTTP 400
  otherwise), \<open>ledger c n\<close> is the answer to the \<open>n\<close>-th execution of the component query
  \<open>c\<close>. The function returns the response and the local list \<open>query_errors\<close>, which the
  source only prints.
\<close>

definition calculate_cta :: "string \<Rightarrow> bool \<Rightarrow> component list \<Rightarrow> (component \<Rightarrow> nat \<Rightarrow> value_row qresult)
    \<Rightarrow> cta_payload response \<times> string list" where
  "calculate_cta period_name fy_found order ledger =
     (if \<not> fy_found then (Failed 400 (''Could not find period '' @ period_name), [])
      else
        let (results, query_errors) = collect_results order ledger Map.empty [];
            total_assets_v = get_or results total_assets 0;
            total_liabilities_v = get_or results total_liabilities 0;
            posted_equity_v = get_or results posted_equity 0;
            prior_pl_v = get_or results prior_pl 0;
            posted_re_v = get_or results posted_re 0;
            net_income_v = get_or results net_income 0;
            total_equity = total_assets_v - total_liabilities_v;
            retained_earnings = prior_pl_v + posted_re_v;
            cta = total_equity - posted_equity_v - retained_earnings - net_income_v
        in (Ok \<lparr>cta_value = cta, cta_period = period_name,
                 cta_comps = \<lparr>c_total_assets = total_assets_v,
                               c_total_liabilities = total_liabilities_v,
                               c_total_equity = total_equity,
                               c_posted_equity = posted_equity_v,
                               c_retained_earnings = retained_earnings,
                               c_net_income = net_income_v\<rparr>\<rparr>, query_errors))"

text \<open>The six names of the dictionary \<open>queries\<close>; \<open>as_completed\<close> yields each future once.\<close>

definition all_components :: "component list" where
  "all_components = [total_assets, total_liabilities, posted_equity, prior_pl, posted_re, net_income]"

record re_payload =
  re_value :: real
  re_period :: string
  re_prior_years_pl :: real
  re_posted_re_adjustments :: real

text \<open>
  The \<open>as_completed\<close> loop of \<open>calculate_retained_earnings\<close> over its two futures:
  \<open>prior_pl\<close> and \<open>posted_re\<close> start at 0.0 and are assigned the parsed value; when
  \<open>float\<close> raises, the assignment is skipped.
\<close>

fun collect_re :: "component list \<Rightarrow> (component \<Rightarrow> nat \<Rightarrow> value_row qresult)
    \<Rightarrow> real \<times> real \<times> string list \<Rightarrow> real \<times> real \<times> string list" where
  "collect_re [] ledger acc = acc"
| "collect_re (name # rest) ledger (prior_pl_v, posted_re_v, query_errors) =
     (case parse_component (component_name name) (fst (query_with_retry_re (ledger name))) of
        (Some v, errs) \<Rightarrow>
          (if name = prior_pl then collect_re rest ledger (v, posted_re_v, query_errors @ errs)
           else collect_re rest ledger (prior_pl_v, v, query_errors @ errs))
      | (None, errs) \<Rightarrow> collect_re rest ledger (prior_pl_v, posted_re_v, query_errors @ errs))"

definition calculate_retained_earnings :: "string \<Rightarrow> bool \<Rightarrow> component list
    \<Rightarrow> (component \<Rightarrow> nat \<Rightarrow> value_row qresult) \<Rightarrow> re_payload response \<times> string list" where
  "calculate_retained_earnings period_name fy_found order ledger =
     (if \<not> fy_found
      then (Failed 400 (''Could not find fiscal year for period '' @ period_name), [])
      else
        let (prior_pl_v, posted_re_v, query_errors) = collect_re order ledger (0, 0, []);
            retained_earnings = prior_pl_v + posted_re_v
        in (Ok \<lparr>re_value = retained_earnings, re_period = period_name,
                 re_prior_years_pl = prior_pl_v, re_posted_re_adjustments = posted_re_v\<rparr>,
            query_errors))"


text \<open>Whether the component query \<open>c\<close>, after its retries, yields a first row whose value is \<open>x\<close>.\<close>

definition yields :: "(component \<Rightarrow> nat \<Rightarrow> value_row qresult) \<Rightarrow> component \<Rightarrow> real \<Rightarrow> bool" where
  "yields ledger c x = (case fst (query_with_retry (ledger c)) of
      Some (Rows (r # _)) \<Rightarrow> val r = Num x
    | _ \<Rightarrow> False)"

definition yields_re :: "(component \<Rightarrow> nat \<Rightarrow> value_row qresult) \<Rightarrow> component \<Rightarrow> real \<Rightarrow> bool" where
  "yields_re ledger c x = (case fst (query_with_retry_re (ledger c)) of
      Some (Rows (r # _)) \<Rightarrow> val r = Num x
    | _ \<Rightarrow> False)"

text \<open>The value that the loop stores for one component.\<close>

definition stored_value :: "(component \<Rightarrow> nat \<Rightarrow> value_row qresult) \<Rightarrow> component \<Rightarrow> real" where
  "stored_value ledger c =
     (case fst (parse_component (component_name c) (fst (query_with_retry (ledger c)))) of
        Some v \<Rightarrow> v | None \<Rightarrow> 0)"

text \<open>A ledger whose six component queries succeed at the first execution.\<close>

definition demo_ledger :: "component \<Rightarrow> nat \<Rightarrow> value_row qresult" where
  "demo_ledger c n = Rows [\<lparr>val = Num (case c of total_assets \<Rightarrow> 1000 | total_liabilities \<Rightarrow> 400
       | posted_equity \<Rightarrow> 300 | prior_pl \<Rightarrow> 150 | posted_re \<Rightarrow> 20 | net_income \<Rightarrow> 100)\<rparr>]"

section \<open>Strings of the request\<close>

definition is_digit :: "char \<Rightarrow> bool" where
  "is_digit c \<longleftrightarrow> c \<in> set ''0123456789''"

text \<open>\<open>str.isdigit\<close>: a non-empty string of digits.\<close>

definition isdigit :: "string \<Rightarrow> bool" where
  "isdigit s \<longleftrightarrow> s \<noteq> [] \<and> list_all is_digit s"

definition nat_of_digits :: "string \<Rightarrow> nat" where
  "nat_of_digits s = foldl (\<lambda>n c. 10 * n + (of_char c - 48)) 0 s"

definition is_year_only :: "string \<Rightarrow> bool" where
  "is_year_only period_str \<longleftrightarrow>
     (if period_str \<noteq> [] \<and> length period_str = 4 \<and> isdigit period_str
      then 1900 \<le> nat_of_digits period_str \<and> nat_of_digits period_str \<le> 2100
      else False)"

definition expand_year_to_periods :: "string \<Rightarrow> string \<times> string" where
  "expand_year_to_periods year_str = (''Jan '' @ year_str, ''Dec '' @ year_str)"

definition is_space :: "char \<Rightarrow> bool" where
  "is_space c \<longleftrightarrow> c \<in> set [CHR '' '', CHR 0x09, CHR 0x0A, CHR 0x0B, CHR 0x0C, CHR 0x0D]"

definition strip :: "string \<Rightarrow> string" where
  "strip s = rev (dropWhile is_space (rev (dropWhile is_space s)))"

text \<open>\<open>escape_sql\<close>: every single quote is doubled.\<close>

definition escape_sql :: "string \<Rightarrow> string" where
  "escape_sql s = concat (map (\<lambda>c. if c = CHR 0x27 then [c, c] else [c]) s)"

text \<open>The test \<open>x and x != ''\<close> on a string parameter.\<close>

definition given :: "string \<Rightarrow> bool" where
  "given s \<longleftrightarrow> s \<noteq> []"

text \<open>Truth value of a string (or None) read from a dictionary.\<close>

definition truthy :: "string option \<Rightarrow> bool" where
  "truthy v = (case v of None \<Rightarrow> False | Some s \<Rightarrow> s \<noteq> [])"

section \<open>The queries that the builders emit\<close>

text \<open>
  The builders of server.py return SuiteQL text. The model keeps the structure of that text:
  the amount expression that is summed, the sign factors it is multiplied by, the
  conditions of the WHERE clause (joined by AND in the source) and the joins that vary.

  The sixth argument of \<open>BUILTIN.CONSOLIDATE\<close> selects the period whose exchange rate
  translates the amount: the column \<open>t.postingperiod\<close> (each transaction's own period) or
  a literal period id.
\<close>

datatype period_ref = PostingPeriod | PeriodId string

text \<open>\<open>TO_NUMBER(BUILTIN.CONSOLIDATE(tal.amount, 'LEDGER', 'DEFAULT', 'DEFAULT', target, period,
  'DEFAULT'))\<close>, or the bare column \<open>tal.amount\<close>.\<close>

datatype amount_expr = Consolidate string period_ref | RawAmount

text \<open>\<open>* CASE WHEN a.accttype IN (types) THEN -1 ELSE 1 END\<close>\<close>

datatype sign_factor = FlipTypes "string list"

text \<open>\<open>build_account_filter\<close>: \<open>1=0\<close> for no account; otherwise the exact numbers of the IN
  list and the LIKE patterns, on the given column.\<close>

datatype account_filter = NoAccounts | AccountFilter string "string list" "string list"

definition build_account_filter :: "string list \<Rightarrow> string \<Rightarrow> account_filter" where
  "build_account_filter accounts column =
     (if accounts = [] then NoAccounts
      else AccountFilter column
        (map escape_sql (filter (\<lambda>a. CHR ''*'' \<notin> set a) (map strip accounts)))
        (map (\<lambda>a. escape_sql (map (\<lambda>c. if c = CHR ''*'' then CHR ''%'' else c) a))
          (filter (\<lambda>a. CHR ''*'' \<in> set a) (map strip accounts))))"

datatype cond =
    TPosting
  | TalPosting
  | Accounts account_filter
  | AccountingBook string
  | SubsidiaryIn "string list"
  | SubsidiaryEq string
  | ClassEq string
  | DepartmentEq string
  | LocationEq string
  | PostingPeriodGE string
  | PostingPeriodLE string
  | PostingPeriodEq string
  | PeriodStartGE string
  | PeriodEndLE string
  | PeriodNameEq string
  | PeriodNameIn "string list"
  | TranDateLE string
  | AcctTypeIn "string list"
  | AcctTypeNotIn "string list"

text \<open>
  \<open>TPosting\<close> is \<open>t.posting = 'T'\<close>, \<open>TalPosting\<close> is \<open>tal.posting = 'T'\<close>,
  \<open>AccountingBook b\<close> is \<open>tal.accountingbook = b\<close>, \<open>SubsidiaryIn\<close>, \<open>SubsidiaryEq\<close>,
  \<open>ClassEq\<close>, \<open>DepartmentEq\<close> and \<open>LocationEq\<close> are the conditions on the columns of
  \<open>tl\<close>, \<open>PostingPeriodGE/LE/Eq p\<close> compare \<open>t.postingperiod\<close> with \<open>p\<close>,
  \<open>PeriodStartGE d\<close> is \<open>ap.startdate >= 'd'\<close>, \<open>PeriodEndLE d\<close> is \<open>ap.enddate <= 'd'\<close>,
  \<open>PeriodNameEq\<close> and \<open>PeriodNameIn\<close> are the conditions on the period name,
  \<open>TranDateLE d\<close> is \<open>t.trandate <= TO_DATE('d', 'YYYY-MM-DD')\<close>, and \<open>AcctTypeIn\<close>,
  \<open>AcctTypeNotIn\<close> are the conditions on \<open>a.accttype\<close>.
\<close>

record balance_query =
  q_amount :: amount_expr
  q_signs :: "sign_factor list"
  q_where :: "cond list"
  q_line_join :: bool
  q_period_join :: bool
  q_group_by :: "string list"

text \<open>The multiplier that the sign factors of a query apply to the amounts of an account
  of the given type.\<close>

fun sign_multiplier :: "sign_factor list \<Rightarrow> string \<Rightarrow> int" where
  "sign_multiplier [] accttype = 1"
| "sign_multiplier (FlipTypes ts # fs) accttype =
     (if accttype \<in> set ts then - 1 else 1) * sign_multiplier fs accttype"

text \<open>Conditions that exclude the transactions before some date or period, and after.\<close>

fun bounds_below :: "cond \<Rightarrow> bool" where
  "bounds_below (PostingPeriodGE _) = True"
| "bounds_below (PostingPeriodEq _) = True"
| "bounds_below (PeriodStartGE _) = True"
| "bounds_below (PeriodNameEq _) = True"
| "bounds_below (PeriodNameIn _) = True"
| "bounds_below _ = False"

fun bounds_above :: "cond \<Rightarrow> bool" where
  "bounds_above (PostingPeriodLE _) = True"
| "bounds_above (PostingPeriodEq _) = True"
| "bounds_above (PeriodEndLE _) = True"
| "bounds_above (PeriodNameEq _) = True"
| "bounds_above (PeriodNameIn _) = True"
| "bounds_above (TranDateLE _) = True"
| "bounds_above _ = False"

definition has_lower_bound :: "balance_query \<Rightarrow> bool" where
  "has_lower_bound q = list_ex bounds_below (q_where q)"

definition has_upper_bound :: "balance_query \<Rightarrow> bool" where
  "has_upper_bound q = list_ex bounds_above (q_where q)"

text \<open>\<open>target_sub or 1\<close>\<close>

definition or_1 :: "string \<Rightarrow> string" where
  "or_1 target_sub = (if target_sub = [] then ''1'' else target_sub)"

text \<open>
  \<open>build_pl_query\<close>. The parameters \<open>subsidiary_id\<close> and \<open>use_hierarchy\<close> of the source are
  not read by its body. \<open>accountingbook\<close> is the text that the source interpolates.
\<close>

definition build_pl_query :: "string list \<Rightarrow> string list \<Rightarrow> cond list \<Rightarrow> string \<Rightarrow> bool \<Rightarrow> string
    \<Rightarrow> balance_query" where
  "build_pl_query accounts periods base_where target_sub needs_line_join accountingbook =
     \<lparr>q_amount = Consolidate (or_1 target_sub) PostingPeriod,
      q_signs = [FlipTypes INCOME_TYPES],
      q_where = base_where @ [Accounts (build_account_filter accounts ''a.acctnumber''),
                  PeriodNameIn (map escape_sql periods), AcctTypeIn PL_TYPES,
                  AccountingBook accountingbook],
      q_line_join = needs_line_join,
      q_period_join = True,
      q_group_by = [''a.acctnumber'', ''ap.periodname'']\<rparr>"

record period_info =
  pi_enddate :: string
  pi_id :: "string option"

text \<open>
  \<open>build_bs_query_single_period\<close>. \<open>to_iso\<close> is the conversion of a date from \<open>%m/%d/%Y\<close> to
  \<open>%Y-%m-%d\<close> by \<open>datetime\<close>, which gives the date back unchanged when it cannot parse it.
\<close>

definition build_bs_query_single_period :: "(string \<Rightarrow> string) \<Rightarrow> string list \<Rightarrow> string \<Rightarrow> period_info
    \<Rightarrow> cond list \<Rightarrow> string \<Rightarrow> bool \<Rightarrow> string \<Rightarrow> balance_query" where
  "build_bs_query_single_period to_iso accounts period_name info base_where target_sub needs_line_join
      accountingbook =
     \<lparr>q_amount = (if truthy (pi_id info)
                   then Consolidate (or_1 target_sub) (PeriodId (the (pi_id info)))
                   else RawAmount),
      q_signs = [],
      q_where = base_where @ [Accounts (build_account_filter accounts ''a.acctnumber''),
                  AcctTypeNotIn PL_TYPES, TranDateLE (to_iso (pi_enddate info)),
                  AccountingBook accountingbook],
      q_line_join = needs_line_join,
      q_period_join = False,
      q_group_by = [''a.acctnumber'']\<rparr>"

text \<open>The query for the prior year's ending balances in \<open>batch_full_year_refresh\<close>
  (\<open>prior_year_query\<close>): the accounts are the Balance-Sheet accounts of the activity rows,
  \<open>prior_year_end\<close> is the text \<open>{prior_year}-12-31\<close>.\<close>

definition prior_year_query :: "string list \<Rightarrow> string \<Rightarrow> string \<Rightarrow> string \<Rightarrow> balance_query" where
  "prior_year_query bs_accounts target_sub accountingbook prior_year_end =
     \<lparr>q_amount = Consolidate target_sub PostingPeriod,
      q_signs = [],
      q_where = [TPosting, TalPosting, AccountingBook accountingbook,
                 Accounts (AccountFilter ''a.acctnumber'' (map escape_sql bs_accounts) []),
                 TranDateLE prior_year_end],
      q_line_join = False,
      q_period_join = False,
      q_group_by = [''a.acctnumber'']\<rparr>"

subsection \<open>The query of get\_balance\<close>

record type_row =
  t_accttype :: string

text \<open>
  The detection of the account's kind in \<open>get_balance\<close>: \<open>type_result\<close> is the ledger's answer
  to the type query (for one account, or for the distinct types that a wildcard matches).
  Without an answer the account is taken for a P&L account; so is a wildcard that matches
  accounts of both kinds.
\<close>

definition detect_bs_account :: "string \<Rightarrow> type_row qresult \<Rightarrow> bool" where
  "detect_bs_account account type_result =
     (if CHR ''*'' \<notin> set account
      then (case type_result of
              Rows (r # _) \<Rightarrow> is_balance_sheet_account (t_accttype r)
            | _ \<Rightarrow> False)
      else (case type_result of
              Rows (r # rs) \<Rightarrow>
                (let account_types = map t_accttype (r # rs);
                     bs_types = filter is_balance_sheet_account account_types;
                     pl_types = filter (\<lambda>t. \<not> is_balance_sheet_account t) account_types
                 in if length bs_types > 0 \<and> length pl_types = 0 then True
                    else if length pl_types > 0 \<and> length bs_types = 0 then False
                    else False)
            | _ \<Rightarrow> False))"

text \<open>What \<open>get_balance\<close> reads besides its parameters: the id of the default subsidiary,
  the hierarchy of a subsidiary, the dates of a period by its name
  (\<open>get_period_dates_from_name\<close>: start date, end date and id) and the date conversion.\<close>

record lookups =
  default_subsidiary_id :: "string option"
  hierarchy :: "string \<Rightarrow> string list"
  period_dates :: "string \<Rightarrow> string option \<times> string option \<times> string option"
  iso_date :: "string \<Rightarrow> string"

record balance_request =
  req_account :: string
  req_subsidiary :: string
  req_from_period :: string
  req_to_period :: string
  req_class_id :: string
  req_department :: string
  req_location :: string
  req_wants_consolidated :: bool
  req_accounting_book :: string

text \<open>The conditions on the period, from the start and end period that are left after the
  adjustment for Balance-Sheet accounts.\<close>

definition period_conds :: "lookups \<Rightarrow> string \<Rightarrow> string \<Rightarrow> cond list" where
  "period_conds env from_p to_p =
     (if from_p \<noteq> [] \<and> to_p \<noteq> [] then
        (if isdigit from_p \<and> isdigit to_p then [PostingPeriodGE from_p, PostingPeriodLE to_p]
         else (case (period_dates env from_p, period_dates env to_p) of
                 ((from_start, _, _), (_, to_end, _)) \<Rightarrow>
                   if truthy from_start \<and> truthy to_end
                   then [PeriodStartGE (the from_start), PeriodEndLE (the to_end)]
                   else [PeriodNameEq (escape_sql from_p)]))
      else if from_p \<noteq> [] then
        (if isdigit from_p then [PostingPeriodEq from_p] else [PeriodNameEq (escape_sql from_p)])
      else if to_p \<noteq> [] then
        (if isdigit to_p then [PostingPeriodLE to_p]
         else (case period_dates env to_p of
                 (_, to_end, _) \<Rightarrow>
                   if truthy to_end then [TranDateLE (iso_date env (the to_end))]
                   else [PeriodNameEq (escape_sql to_p)]))
      else [])"

text \<open>The start and end period after the expansion of a year (\<open>2025\<close> stands for
  \<open>Jan 2025\<close> as a start and for \<open>Dec 2025\<close> as an end).\<close>

definition from_period_expanded :: "balance_request \<Rightarrow> string" where
  "from_period_expanded req =
     (if is_year_only (req_from_period req) then fst (expand_year_to_periods (req_from_period req))
      else req_from_period req)"

definition to_period_expanded :: "balance_request \<Rightarrow> string" where
  "to_period_expanded req =
     (if is_year_only (req_to_period req) then snd (expand_year_to_periods (req_to_period req))
      else req_to_period req)"

text \<open>For an account detected as a Balance-Sheet account, the start period is cleared when
  both periods are given.\<close>

definition effective_from_period :: "balance_request \<Rightarrow> bool \<Rightarrow> string" where
  "effective_from_period req is_bs_account =
     (if is_bs_account \<and> from_period_expanded req \<noteq> [] \<and> to_period_expanded req \<noteq> []
      then [] else from_period_expanded req)"

definition is_root_consolidated :: "lookups \<Rightarrow> balance_request \<Rightarrow> bool" where
  "is_root_consolidated env req \<longleftrightarrow>
     req_subsidiary req = (case default_subsidiary_id env of None \<Rightarrow> ''None'' | Some d \<Rightarrow> d)
     \<and> req_wants_consolidated req"

definition subsidiary_conds :: "lookups \<Rightarrow> balance_request \<Rightarrow> cond list" where
  "subsidiary_conds env req =
     (if req_subsidiary req \<noteq> [] then
        (if is_root_consolidated env req then []
         else if req_wants_consolidated req then [SubsidiaryIn (hierarchy env (req_subsidiary req))]
         else [SubsidiaryEq (req_subsidiary req)])
      else [])"

definition segment_conds :: "balance_request \<Rightarrow> cond list" where
  "segment_conds req =
     (if req_class_id req \<noteq> [] then [ClassEq (req_class_id req)] else [])
     @ (if req_department req \<noteq> [] then [DepartmentEq (req_department req)] else [])
     @ (if req_location req \<noteq> [] then [LocationEq (req_location req)] else [])"

text \<open>
  \<open>get_balance\<close> up to the query it sends: None when the account is missing (HTTP 400).
  The four templates of the source differ in the joins only.
\<close>

definition get_balance_query :: "lookups \<Rightarrow> balance_request \<Rightarrow> type_row qresult \<Rightarrow> balance_query option" where
  "get_balance_query env req type_result =
     (if req_account req = [] then None
      else
        let is_bs_account = detect_bs_account (req_account req) type_result;
            from_p = effective_from_period req is_bs_account;
            to_p = to_period_expanded req;
            needs_line_join_for_subsidiary = (req_subsidiary req \<noteq> [] \<and> \<not> is_root_consolidated env req);
            where_clauses =
              [TPosting, TalPosting, Accounts (build_account_filter [req_account req] ''a.acctnumber''),
               AccountingBook (req_accounting_book req)]
              @ subsidiary_conds env req
              @ period_conds env from_p to_p
              @ segment_conds req;
            target_sub = (if req_subsidiary req \<noteq> [] then req_subsidiary req
                          else (case default_subsidiary_id env of
                                  None \<Rightarrow> ''1'' | Some d \<Rightarrow> if d = [] then ''1'' else d));
            needs_line_join = (needs_line_join_for_subsidiary \<or> given (req_department req)
                               \<or> given (req_class_id req) \<or> given (req_location req));
            is_cumulative_bs = (is_bs_account \<and> from_p = [] \<and> to_p \<noteq> [] \<and> \<not> isdigit to_p);
            period_join = (\<not> is_cumulative_bs \<and>
                           ((from_p \<noteq> [] \<and> \<not> isdigit from_p) \<or> (to_p \<noteq> [] \<and> \<not> isdigit to_p)))
        in Some \<lparr>q_amount = Consolidate target_sub PostingPeriod,
                  q_signs = [FlipTypes INCOME_TYPES],
                  q_where = where_clauses,
                  q_line_join = needs_line_join,
                  q_period_join = period_join,
                  q_group_by = []\<rparr>)"

text \<open>The sign table of the specification (section 4.3), by account type; None for a type
  that the table does not list.\<close>

definition spec_sign_multiplier :: "string \<Rightarrow> int option" where
  "spec_sign_multiplier accttype =
     (if accttype \<in> set [''Income'', ''OthIncome''] then Some (- 1)
      else if accttype \<in> set [''COGS'', ''Cost of Goods Sold'', ''Expense'', ''OthExpense''] then Some 1
      else if accttype \<in> set BS_ASSET_TYPES then Some 1
      else if accttype \<in> set BS_LIABILITY_TYPES then Some (- 1)
      else if accttype \<in> set BS_EQUITY_TYPES then Some (- 1)
      else None)"

text \<open>A ledger with two known periods, and a request for the balance of account 1000 of
  subsidiary 2 from January to March 2025.\<close>

definition demo_lookups :: lookups where
  "demo_lookups = \<lparr>default_subsidiary_id = Some ''1'',
     hierarchy = (\<lambda>s. [s]),
     period_dates = (\<lambda>p. if p = ''Jan 2025'' then (Some ''1/1/2025'', Some ''1/31/2025'', Some ''344'')
                        else if p = ''Mar 2025'' then (Some ''3/1/2025'', Some ''3/31/2025'', Some ''346'')
                        else (None, None, None)),
     iso_date = (\<lambda>d. if d = ''1/31/2025'' then ''2025-01-31''
                     else if d = ''3/31/2025'' then ''2025-03-31'' else d)\<rparr>"

definition demo_request :: balance_request where
  "demo_request = \<lparr>req_account = ''1000'', req_subsidiary = ''2'', req_from_period = ''Jan 2025'',
     req_to_period = ''Mar 2025'', req_class_id = [], req_department = [], req_location = [],
     req_wants_consolidated = False, req_accounting_book = ''1''\<rparr>"

section \<open>Subsidiary hierarchy (get\_subsidiaries\_in\_hierarchy)\<close>














section \<open>The balance cache and the full-year refresh (batch\_full\_year\_refresh)\<close>

text \<open>\<open>str\<close> of a Python int.\<close>

function str_nat :: "nat \<Rightarrow> string" where
  "str_nat n = (if n < 10 then [''0123456789'' ! n]
                else str_nat (n div 10) @ [''0123456789'' ! (n mod 10)])"
  by pat_completeness auto

termination str_nat
  by (relation "measure id") auto

definition str_int :: "int \<Rightarrow> string" where
  "str_int i = (if i < 0 then CHR ''-'' # str_nat (nat (- i)) else str_nat (nat i))"

text \<open>
  The module-level caches that the refresh writes. Python dictionaries are association lists
  in insertion order; times are seconds.
\<close>

record server_state =
  balance_cache :: "(string \<times> real) list"
  balance_cache_timestamp :: "real option"
  bs_activity_cache :: "(string \<times> real) list"
  bs_activity_cache_timestamp :: "real option"
  bs_account_set :: "string set"

record filters =
  f_subsidiary :: string
  f_department :: string
  f_location :: string
  f_class_id :: string

text \<open>\<open>filters_hash = f"{subsidiary}:{department}:{location}:{class_id}"\<close>, and the keys
  \<open>f"{account}:{period}:{filters_hash}"\<close> and
  \<open>f"activity:{account}:{period_name}:{filters_hash}"\<close>.\<close>

definition filters_hash :: "filters \<Rightarrow> string" where
  "filters_hash f = f_subsidiary f @ '':'' @ f_department f @ '':'' @ f_location f @ '':'' @ f_class_id f"

definition cache_key :: "string \<Rightarrow> string \<Rightarrow> string \<Rightarrow> string" where
  "cache_key account period fh = account @ '':'' @ period @ '':'' @ fh"

definition activity_cache_key :: "string \<Rightarrow> string \<Rightarrow> string \<Rightarrow> string" where
  "activity_cache_key account period_name fh = ''activity:'' @ account @ '':'' @ period_name @ '':'' @ fh"

definition month_order :: "string list" where
  "month_order = [''Jan'', ''Feb'', ''Mar'', ''Apr'', ''May'', ''Jun'',
                  ''Jul'', ''Aug'', ''Sep'', ''Oct'', ''Nov'', ''Dec'']"

text \<open>\<open>f"{month_abbrev} {fiscal_year}"\<close>\<close>

definition period_of :: "string \<Rightarrow> int \<Rightarrow> string" where
  "period_of month_abbrev fiscal_year = month_abbrev @ '' '' @ str_int fiscal_year"

text \<open>\<open>month_mapping\<close>: the columns of the pivoted P&L query and their period names.\<close>

definition month_mapping :: "int \<Rightarrow> (string \<times> string) list" where
  "month_mapping fiscal_year =
     [(''jan'', period_of ''Jan'' fiscal_year), (''feb'', period_of ''Feb'' fiscal_year),
      (''mar'', period_of ''Mar'' fiscal_year), (''apr'', period_of ''Apr'' fiscal_year),
      (''may'', period_of ''May'' fiscal_year), (''jun'', period_of ''Jun'' fiscal_year),
      (''jul'', period_of ''Jul'' fiscal_year), (''aug'', period_of ''Aug'' fiscal_year),
      (''sep'', period_of ''Sep'' fiscal_year), (''oct'', period_of ''Oct'' fiscal_year),
      (''nov'', period_of ''Nov'' fiscal_year), (''dec_month'', period_of ''Dec'' fiscal_year)]"

text \<open>A row of the pivoted P&L query: \<open>pl_column c\<close> is \<open>row.get(c)\<close> as a number.\<close>

record pl_row =
  pl_account_number :: "string option"
  pl_account_type :: string
  pl_column :: "string \<Rightarrow> real option"

text \<open>The loop over the P&L rows: \<open>balances[account]\<close> is rebuilt for every row with an
  account number.\<close>

fun pl_balances :: "int \<Rightarrow> pl_row list \<Rightarrow> (string \<times> (string \<times> real) list) list
    \<Rightarrow> (string \<times> (string \<times> real) list) list" where
  "pl_balances fiscal_year [] balances = balances"
| "pl_balances fiscal_year (row # items) balances =
     (if \<not> truthy (pl_account_number row) then pl_balances fiscal_year items balances
      else pl_balances fiscal_year items
             (AList.update (the (pl_account_number row))
                (map (\<lambda>(col_name, period_name).
                        (period_name, case pl_column row col_name of Some amount \<Rightarrow> amount | None \<Rightarrow> 0))
                     (month_mapping fiscal_year))
                balances))"

text \<open>The loops that cache the P&L results: \<open>balance_cache[cache_key] = amount\<close>.\<close>

fun cache_periods :: "string \<Rightarrow> string \<Rightarrow> (string \<times> real) list \<Rightarrow> (string \<times> real) list
    \<Rightarrow> (string \<times> real) list" where
  "cache_periods account fh [] cache = cache"
| "cache_periods account fh ((period, amount) # periods_data) cache =
     cache_periods account fh periods_data (AList.update (cache_key account period fh) amount cache)"

fun cache_balances :: "string \<Rightarrow> (string \<times> (string \<times> real) list) list \<Rightarrow> (string \<times> real) list
    \<Rightarrow> (string \<times> real) list" where
  "cache_balances fh [] cache = cache"
| "cache_balances fh ((account, periods_data) # balances) cache =
     cache_balances fh balances (cache_periods account fh periods_data cache)"

text \<open>
  A row of the Balance-Sheet activity query. \<open>float(row.get('amount', 0))\<close> raises on NULL
  and on text that is no number.
\<close>

record bs_row =
  bs_account_number :: "string option"
  bs_account_type :: string
  bs_month :: "string option"
  bs_amount :: cell

text \<open>
  The loop over the activity rows: the dictionary \<open>bs_activity_data\<close>, the activity cache
  and the set of Balance-Sheet accounts; None when \<open>float\<close> raises, which leaves the
  \<open>try\<close> block of the Balance-Sheet stage. \<open>conv\<close> is \<open>convert_month_to_period_name\<close>
  (from \<open>YYYY-MM\<close> to \<open>Mon YYYY\<close> by \<open>datetime\<close>, the text unchanged when it cannot be
  parsed).
\<close>

fun bs_activity_loop :: "(string \<Rightarrow> string) \<Rightarrow> string \<Rightarrow> bs_row list
    \<Rightarrow> (string \<times> (string \<times> real) list) list \<times> (string \<times> real) list \<times> string set
    \<Rightarrow> ((string \<times> (string \<times> real) list) list \<times> (string \<times> real) list \<times> string set) option
       \<times> (string \<times> real) list \<times> string set" where
  "bs_activity_loop conv fh [] (bs_activity_data, activity_cache, accounts) =
     (Some (bs_activity_data, activity_cache, accounts), activity_cache, accounts)"
| "bs_activity_loop conv fh (row # bs_items) (bs_activity_data, activity_cache, accounts) =
     (case bs_amount row of
        Num amount \<Rightarrow>
          (if \<not> truthy (bs_account_number row) \<or> \<not> truthy (bs_month row)
           then bs_activity_loop conv fh bs_items (bs_activity_data, activity_cache, accounts)
           else
             let account = the (bs_account_number row);
                 period_name = conv (the (bs_month row));
                 activity_by_period = (case map_of bs_activity_data account of
                                         None \<Rightarrow> [] | Some d \<Rightarrow> d)
             in bs_activity_loop conv fh bs_items
                  (AList.update account (AList.update period_name amount activity_by_period)
                     bs_activity_data,
                   AList.update (activity_cache_key account period_name fh) amount activity_cache,
                   insert account accounts))
      | _ \<Rightarrow> (None, activity_cache, accounts))"

text \<open>A row of the prior-year query, and the loop that fills \<open>prior_year_balances\<close>; an
  exception of \<open>float\<close> ends the loop and keeps what has been stored.\<close>

record prior_row =
  pr_acctnumber :: string
  pr_balance :: cell

fun prior_loop :: "prior_row list \<Rightarrow> (string \<times> real) list \<Rightarrow> (string \<times> real) list" where
  "prior_loop [] prior_year_balances = prior_year_balances"
| "prior_loop (row # rest) prior_year_balances =
     (case pr_balance row of
        Num bal \<Rightarrow> prior_loop rest (AList.update (pr_acctnumber row) bal prior_year_balances)
      | _ \<Rightarrow> prior_year_balances)"

definition prior_year_balances_of :: "prior_row qresult \<Rightarrow> (string \<times> real) list" where
  "prior_year_balances_of prior_result =
     (case prior_result of Rows rows \<Rightarrow> prior_loop rows [] | Error _ _ \<Rightarrow> [])"

text \<open>The adjustment of a running total: a total below one cent in magnitude becomes 0.\<close>

definition round_tiny :: "real \<Rightarrow> real" where
  "round_tiny cumulative = (if \<bar>cumulative\<bar> < 0.01 then 0 else cumulative)"

text \<open>
  The loop over \<open>month_order\<close> for one account: the running total after each month is stored
  in \<open>balances[account]\<close> and in the balance cache, and carried to the next month.
\<close>

fun month_loop :: "string list \<Rightarrow> int \<Rightarrow> string \<Rightarrow> string \<Rightarrow> (string \<times> real) list \<Rightarrow> real
    \<Rightarrow> (string \<times> real) list \<times> (string \<times> real) list
    \<Rightarrow> (string \<times> real) list \<times> (string \<times> real) list" where
  "month_loop [] fiscal_year account fh activity_by_period cumulative (account_balances, cache) =
     (account_balances, cache)"
| "month_loop (month_abbrev # rest) fiscal_year account fh activity_by_period cumulative
       (account_balances, cache) =
     (let period_name = period_of month_abbrev fiscal_year;
          activity = (case map_of activity_by_period period_name of None \<Rightarrow> 0 | Some a \<Rightarrow> a);
          cumulative' = round_tiny (cumulative + activity)
      in month_loop rest fiscal_year account fh activity_by_period cumulative'
           (AList.update period_name cumulative' account_balances,
            AList.update (cache_key account period_name fh) cumulative' cache))"

text \<open>The loop over the accounts of \<open>bs_activity_data\<close>.\<close>

fun cumulative_loop :: "(string \<times> (string \<times> real) list) list \<Rightarrow> int \<Rightarrow> string \<Rightarrow> (string \<times> real) list
    \<Rightarrow> (string \<times> (string \<times> real) list) list \<times> (string \<times> real) list
    \<Rightarrow> (string \<times> (string \<times> real) list) list \<times> (string \<times> real) list" where
  "cumulative_loop [] fiscal_year fh prior_year_balances (balances, cache) = (balances, cache)"
| "cumulative_loop ((account, activity_by_period) # rest) fiscal_year fh prior_year_balances
       (balances, cache) =
     (let account_balances = (case map_of balances account of None \<Rightarrow> [] | Some b \<Rightarrow> b);
          cumulative = (case map_of prior_year_balances account of None \<Rightarrow> 0 | Some b \<Rightarrow> b)
      in case month_loop month_order fiscal_year account fh activity_by_period cumulative
                (account_balances, cache) of
           (account_balances', cache') \<Rightarrow>
             cumulative_loop rest fiscal_year fh prior_year_balances
               (AList.update account account_balances' balances, cache'))"

record refresh_request =
  rf_fiscal_year :: int
  rf_filters :: filters
  rf_target_sub :: string
  rf_accountingbook :: string
  rf_skip_bs :: bool

text \<open>
  What the ledger answers to one refresh: the rows of the pivoted P&L query and of the
  Balance-Sheet activity query (None when \<open>run_paginated_suiteql\<close> raises; the builder of the
  activity query, \<open>build_full_year_bs_query\<close>, is not in the source, and a call of it that
  raises is the case None as well), and the answer to the prior-year query.
\<close>

record refresh_ledger =
  l_pl_items :: "pl_row list option"
  l_bs_items :: "bs_row list option"
  l_prior_result :: "balance_query \<Rightarrow> prior_row qresult"

datatype refresh_response =
    RefreshFailed nat
  | PLOnly "(string \<times> (string \<times> real) list) list"
  | Refreshed "(string \<times> (string \<times> real) list) list"

text \<open>Step 1 of the cumulative computation: the prior-year query is sent when there is a
  Balance-Sheet account, and its rows fill \<open>prior_year_balances\<close>.\<close>

definition prior_year_balances_for :: "refresh_request \<Rightarrow> refresh_ledger
    \<Rightarrow> (string \<times> (string \<times> real) list) list \<Rightarrow> (string \<times> real) list" where
  "prior_year_balances_for req ledger bs_activity_data =
     (let prior_year = rf_fiscal_year req - 1 in
      if bs_activity_data = [] then []
      else prior_year_balances_of
             (l_prior_result ledger
                (prior_year_query (map fst bs_activity_data) (rf_target_sub req)
                   (rf_accountingbook req) (str_int prior_year @ ''-12-31''))))"

text \<open>
  The Balance-Sheet stage of the refresh, after the activity cache has been emptied: the
  balances, the balance cache, the activity cache and the set of Balance-Sheet accounts
  after it. An exception in the stage keeps what has been written so far.
\<close>

definition bs_stage :: "(string \<Rightarrow> string) \<Rightarrow> refresh_request \<Rightarrow> refresh_ledger
    \<Rightarrow> (string \<times> (string \<times> real) list) list \<Rightarrow> (string \<times> real) list
    \<Rightarrow> (string \<times> (string \<times> real) list) list \<times> (string \<times> real) list \<times> (string \<times> real) list
       \<times> string set" where
  "bs_stage conv req ledger balances cache =
     (let fh = filters_hash (rf_filters req) in
      case l_bs_items ledger of
        None \<Rightarrow> (balances, cache, [], {})
      | Some rows \<Rightarrow>
          (case bs_activity_loop conv fh rows ([], [], {}) of
             (None, activity_cache, accounts) \<Rightarrow> (balances, cache, activity_cache, accounts)
           | (Some (bs_activity_data, _, _), activity_cache, accounts) \<Rightarrow>
               (let prior_year_balances = prior_year_balances_for req ledger bs_activity_data
                in case cumulative_loop bs_activity_data (rf_fiscal_year req) fh prior_year_balances
                          (balances, cache) of
                     (balances', cache') \<Rightarrow> (balances', cache', activity_cache, accounts))))"

text \<open>
  \<open>batch_full_year_refresh\<close> after the request has been parsed: the response (its
  balances) and the caches after the call. \<open>now\<close> is the clock when the balance cache is
  emptied, \<open>now_bs\<close> when the activity cache is. The debug query at the start and the query
  for the account names at the end write no cache.
\<close>

definition batch_full_year_refresh :: "(string \<Rightarrow> string) \<Rightarrow> real \<Rightarrow> real \<Rightarrow> server_state
    \<Rightarrow> refresh_request \<Rightarrow> refresh_ledger \<Rightarrow> refresh_response \<times> server_state" where
  "batch_full_year_refresh conv now now_bs st req ledger =
     (case l_pl_items ledger of
        None \<Rightarrow> (RefreshFailed 500, st)
      | Some items \<Rightarrow>
          (let balances = pl_balances (rf_fiscal_year req) items [];
               fh = filters_hash (rf_filters req);
               cache = cache_balances fh balances [];
               st1 = st\<lparr>balance_cache := cache, balance_cache_timestamp := Some now\<rparr>
           in if rf_skip_bs req then (PLOnly balances, st1)
              else case bs_stage conv req ledger balances cache of
                     (balances', cache', activity_cache, accounts) \<Rightarrow>
                       (Refreshed balances',
                        st1\<lparr>balance_cache := cache',
                            bs_activity_cache := activity_cache,
                            bs_activity_cache_timestamp := Some now_bs,
                            bs_account_set := accounts\<rparr>)))"





text \<open>A refresh of fiscal year 2025 for subsidiary 1: no P&L row, activity of 100 in January
  and 50 in February on the Balance-Sheet account 1000, whose balance at the end of 2024 is
  1000; and the same refresh with an activity of half a cent in January and of 1 in February
  on a balance of 0.\<close>

definition demo_conv :: "string \<Rightarrow> string" where
  "demo_conv m = (if m = ''2025-01'' then ''Jan 2025'' else if m = ''2025-02'' then ''Feb 2025'' else m)"

definition demo_refresh_request :: refresh_request where
  "demo_refresh_request = \<lparr>rf_fiscal_year = 2025,
     rf_filters = \<lparr>f_subsidiary = ''1'', f_department = [], f_location = [], f_class_id = []\<rparr>,
     rf_target_sub = ''1'', rf_accountingbook = ''1'', rf_skip_bs = False\<rparr>"

definition demo_refresh_ledger :: refresh_ledger where
  "demo_refresh_ledger = \<lparr>l_pl_items = Some [],
     l_bs_items = Some
       [\<lparr>bs_account_number = Some ''1000'', bs_account_type = ''Bank'', bs_month = Some ''2025-01'',
          bs_amount = Num 100\<rparr>,
        \<lparr>bs_account_number = Some ''1000'', bs_account_type = ''Bank'', bs_month = Some ''2025-02'',
          bs_amount = Num 50\<rparr>],
     l_prior_result = (\<lambda>q. Rows [\<lparr>pr_acctnumber = ''1000'', pr_balance = Num 1000\<rparr>])\<rparr>"


definition empty_state :: server_state where
  "empty_state = \<lparr>balance_cache = [], balance_cache_timestamp = None, bs_activity_cache = [],
     bs_activity_cache_timestamp = None, bs_account_set = {}\<rparr>"

text \<open>The caches after an earlier refresh of fiscal year 2024 for subsidiary 9.\<close>

definition stale_state :: server_state where
  "stale_state = \<lparr>balance_cache = [(''1000:Jan 2024:9:::'', 7)], balance_cache_timestamp = Some 0,
     bs_activity_cache = [(''activity:1000:Jan 2024:9:::'', 7)],
     bs_activity_cache_timestamp = Some 0, bs_account_set = {''1000''}\<rparr>"

text \<open>Whether a key of the balance cache ends with a month of the fiscal year and the filters
  hash: \<open>...:Mon YYYY:filters_hash\<close>.\<close>

definition refresh_key :: "int \<Rightarrow> string \<Rightarrow> string \<Rightarrow> bool" where
  "refresh_key fy fh k =
     list_ex (\<lambda>m. suffix ('':'' @ period_of m fy @ '':'' @ fh) k) month_order"

section \<open>Batch balance (batch\_balance)\<close>


text \<open>The request after its names have been converted to ids; \<open>b_accountingbook\<close> is the
  accounting book as the source interpolates it.\<close>

record batch_request =
  b_accounts :: "string list"
  b_periods :: "string list"
  b_filters :: filters
  b_wants_consolidated :: bool
  b_accountingbook :: string

text \<open>The responses: an error with its HTTP status, or \<open>{'balances': ...}\<close>, with
  \<open>'from_cache': True\<close> when the flag is set.\<close>

datatype batch_response = BatchError nat | BatchBalances "(string \<times> (string \<times> real) list) list" bool

subsection \<open>The answer from the balance cache\<close>





subsection \<open>The answer from the ledger\<close>

text \<open>What the handler looks up besides the ledger: the lookups of \<open>get_balance\<close>, and
  \<open>calculate_period_end_date\<close> (the last day of the month of a period name, None when the
  name cannot be parsed).\<close>

record batch_lookups = lookups +
  calculate_period_end_date :: "string \<Rightarrow> string option"

record acct_type_row =
  at_acctnumber :: string
  at_accttype :: string

record balance_row =
  br_acctnumber :: string
  br_periodname :: string
  br_balance :: cell

text \<open>The ledger's answers to the type query (by its account filter) and to the balance
  queries.\<close>

record batch_ledger =
  account_types :: "account_filter \<Rightarrow> acct_type_row qresult"
  balance_rows :: "balance_query \<Rightarrow> balance_row qresult"

text \<open>The conditions on the subsidiary and on the segments; the subsidiary branch sets
  \<open>needs_line_join\<close> on both sides.\<close>

definition batch_where_clauses :: "('a batch_lookups_scheme) \<Rightarrow> batch_request \<Rightarrow> cond list" where
  "batch_where_clauses env req =
     [TPosting, TalPosting, Accounts (build_account_filter (b_accounts req) ''a.acctnumber'')]
     @ (if given (f_subsidiary (b_filters req)) then
          (if b_wants_consolidated req
           then [SubsidiaryIn (hierarchy env (f_subsidiary (b_filters req)))]
           else [SubsidiaryEq (f_subsidiary (b_filters req))])
        else [SubsidiaryIn (hierarchy env
                (case default_subsidiary_id env of None \<Rightarrow> ''1'' | Some d \<Rightarrow> if d = [] then ''1'' else d))])
     @ (if given (f_class_id (b_filters req)) then [ClassEq (f_class_id (b_filters req))] else [])
     @ (if given (f_department (b_filters req)) then [DepartmentEq (f_department (b_filters req))] else [])
     @ (if given (f_location (b_filters req)) then [LocationEq (f_location (b_filters req))] else [])"

text \<open>The dictionary \<open>period_info\<close>: a period that the ledger does not know gets the
  calculated end date and no id; a period whose name cannot be parsed either is left out.\<close>

fun period_info_loop :: "('a batch_lookups_scheme) \<Rightarrow> string list \<Rightarrow> (string \<times> period_info) list
    \<Rightarrow> (string \<times> period_info) list" where
  "period_info_loop env [] infos = infos"
| "period_info_loop env (period # periods) infos =
     (case period_dates env period of
        (start, end_date, pid) \<Rightarrow>
          if truthy end_date \<and> truthy pid
          then period_info_loop env periods
                 (AList.update period \<lparr>pi_enddate = the end_date, pi_id = pid\<rparr> infos)
          else (case calculate_period_end_date env period of
                  Some calc_end \<Rightarrow>
                    if calc_end \<noteq> []
                    then period_info_loop env periods
                           (AList.update period \<lparr>pi_enddate = calc_end, pi_id = None\<rparr> infos)
                    else period_info_loop env periods infos
                | None \<Rightarrow> period_info_loop env periods infos))"

text \<open>
  The loops that store the rows of an answer in \<open>all_balances\<close>; the flag says that
  \<open>float\<close> raised on a balance (a NULL or zero balance is stored as 0). \<open>period_for\<close> gives
  the period under which a row is stored: its own period name for a P&L row, the period of
  the query for a Balance-Sheet row.
\<close>

fun store_rows :: "(balance_row \<Rightarrow> string) \<Rightarrow> balance_row list \<Rightarrow> (string \<times> (string \<times> real) list) list
    \<Rightarrow> (string \<times> (string \<times> real) list) list \<times> bool" where
  "store_rows period_for [] all_balances = (all_balances, False)"
| "store_rows period_for (row # rows) all_balances =
     (case br_balance row of
        Garbage \<Rightarrow> (all_balances, True)
      | c \<Rightarrow>
          (let balance = (case c of Num v \<Rightarrow> v | _ \<Rightarrow> 0);
               account_balances = (case map_of all_balances (br_acctnumber row) of
                                     None \<Rightarrow> [] | Some d \<Rightarrow> d)
           in store_rows period_for rows
                (AList.update (br_acctnumber row)
                   (AList.update (period_for row) balance account_balances) all_balances)))"

text \<open>\<open>str.split()\<close>: the words between runs of white space.\<close>

fun split_from :: "string \<Rightarrow> string \<Rightarrow> string list" where
  "split_from word [] = (if word = [] then [] else [word])"
| "split_from word (c # cs) =
     (if is_space c then (if word = [] then split_from [] cs else word # split_from [] cs)
      else split_from (word @ [c]) cs)"

definition split_ws :: "string \<Rightarrow> string list" where
  "split_ws s = split_from [] s"

text \<open>The dictionary \<open>periods_by_year\<close>; a period that is not two words is in no group.\<close>

fun group_by_year :: "string list \<Rightarrow> (string \<times> string list) list \<Rightarrow> (string \<times> string list) list" where
  "group_by_year [] periods_by_year = periods_by_year"
| "group_by_year (p # periods) periods_by_year =
     (case split_ws p of
        [_, year] \<Rightarrow>
          group_by_year periods
            (AList.update year ((case map_of periods_by_year year of None \<Rightarrow> [] | Some ps \<Rightarrow> ps) @ [p])
               periods_by_year)
      | _ \<Rightarrow> group_by_year periods periods_by_year)"

text \<open>The P&L queries, one per year when more than 800 rows are expected. An answer that is
  no list stores nothing; an exception of \<open>float\<close> ends the handler (flag True).\<close>

fun pl_year_loop :: "batch_ledger \<Rightarrow> (string list \<Rightarrow> balance_query) \<Rightarrow> (string \<times> string list) list
    \<Rightarrow> (string \<times> (string \<times> real) list) list \<Rightarrow> (string \<times> (string \<times> real) list) list \<times> bool" where
  "pl_year_loop ledger build [] all_balances = (all_balances, False)"
| "pl_year_loop ledger build ((year, year_periods) # rest) all_balances =
     (case balance_rows ledger (build year_periods) of
        Rows rows \<Rightarrow>
          (case store_rows br_periodname rows all_balances of
             (all_balances', True) \<Rightarrow> (all_balances', True)
           | (all_balances', False) \<Rightarrow> pl_year_loop ledger build rest all_balances')
      | Error _ _ \<Rightarrow> pl_year_loop ledger build rest all_balances)"

definition is_account_clause :: "cond \<Rightarrow> bool" where
  "is_account_clause c = (case c of
       Accounts (AccountFilter column _ _) \<Rightarrow> sublist ''a.acctnumber'' column
     | _ \<Rightarrow> False)"

definition pl_stage :: "batch_ledger \<Rightarrow> batch_request \<Rightarrow> cond list \<Rightarrow> string \<Rightarrow> string list
    \<Rightarrow> (string \<times> (string \<times> real) list) list \<times> bool" where
  "pl_stage ledger req where_clauses target_sub pl_accounts =
     (if pl_accounts = [] then ([], False)
      else
        let pl_base_where = filter (\<lambda>c. \<not> is_account_clause c) where_clauses
                            @ [Accounts (build_account_filter pl_accounts ''a.acctnumber'')];
            build = (\<lambda>ps. build_pl_query pl_accounts ps pl_base_where target_sub True
                             (b_accountingbook req));
            expected_rows = length pl_accounts * length (b_periods req)
        in if expected_rows > 800
           then pl_year_loop ledger build (group_by_year (b_periods req) []) []
           else (case balance_rows ledger (build (b_periods req)) of
                   Rows rows \<Rightarrow> store_rows br_periodname rows []
                 | Error _ _ \<Rightarrow> ([], False)))"

text \<open>The Balance-Sheet queries, one per period of \<open>period_info\<close>: an answer that is no
  list is logged and stores nothing, and an exception inside the \<open>try\<close> of one period
  keeps the rows stored before it; the loop goes on with the next period in both cases.\<close>

fun bs_period_loop :: "batch_ledger \<Rightarrow> (string \<Rightarrow> period_info \<Rightarrow> balance_query)
    \<Rightarrow> (string \<times> period_info) list \<Rightarrow> (string \<times> (string \<times> real) list) list
    \<Rightarrow> (string \<times> (string \<times> real) list) list" where
  "bs_period_loop ledger build [] all_balances = all_balances"
| "bs_period_loop ledger build ((period, info) # rest) all_balances =
     (case balance_rows ledger (build period info) of
        Rows rows \<Rightarrow>
          bs_period_loop ledger build rest (fst (store_rows (\<lambda>row. period) rows all_balances))
      | Error _ _ \<Rightarrow> bs_period_loop ledger build rest all_balances)"

text \<open>The sums for the wildcard patterns of the request.\<close>

fun add_periods :: "(string \<times> real) list \<Rightarrow> (string \<times> real) list \<Rightarrow> (string \<times> real) list" where
  "add_periods [] wildcard_totals = wildcard_totals"
| "add_periods ((period, balance) # period_balances) wildcard_totals =
     add_periods period_balances
       (AList.update period
          ((case map_of wildcard_totals period of None \<Rightarrow> 0 | Some t \<Rightarrow> t) + balance)
          wildcard_totals)"

fun sum_matching :: "string \<Rightarrow> (string \<times> (string \<times> real) list) list \<Rightarrow> (string \<times> real) list
    \<Rightarrow> (string \<times> real) list" where
  "sum_matching pattern [] wildcard_totals = wildcard_totals"
| "sum_matching pattern ((account_num, period_balances) # items) wildcard_totals =
     (if prefix pattern account_num
      then sum_matching pattern items (add_periods period_balances wildcard_totals)
      else sum_matching pattern items wildcard_totals)"

fun wildcard_loop :: "string list \<Rightarrow> (string \<times> (string \<times> real) list) list
    \<Rightarrow> (string \<times> (string \<times> real) list) list" where
  "wildcard_loop [] all_balances = all_balances"
| "wildcard_loop (original_account # accounts) all_balances =
     (if CHR ''*'' \<in> set original_account
      then wildcard_loop accounts
             (AList.update original_account
                (sum_matching (filter (\<lambda>c. c \<noteq> CHR ''*'') original_account) all_balances [])
                all_balances)
      else wildcard_loop accounts all_balances)"

text \<open>The zeros for the combinations of account and period without a balance.\<close>

fun fill_periods :: "string list \<Rightarrow> (string \<times> real) list \<Rightarrow> (string \<times> real) list" where
  "fill_periods [] account_balances = account_balances"
| "fill_periods (period # periods) account_balances =
     (if period \<notin> set (map fst account_balances)
      then fill_periods periods (AList.update period 0 account_balances)
      else fill_periods periods account_balances)"

fun fill_zeros :: "string list \<Rightarrow> string list \<Rightarrow> (string \<times> (string \<times> real) list) list
    \<Rightarrow> (string \<times> (string \<times> real) list) list" where
  "fill_zeros [] periods all_balances = all_balances"
| "fill_zeros (account_num # accounts) periods all_balances =
     fill_zeros accounts periods
       (AList.update account_num
          (fill_periods periods (case map_of all_balances account_num of None \<Rightarrow> [] | Some d \<Rightarrow> d))
          all_balances)"

text \<open>
  The body of the \<open>try\<close> of \<open>batch_balance\<close>: the accounts are classified by the answer to
  the type query (all of them are taken for P&L accounts when it fails), the P&L query and
  the Balance-Sheet queries are run, and the results are merged. The balance cache is not
  read here.
\<close>

definition batch_balance_fresh :: "('a batch_lookups_scheme) \<Rightarrow> batch_ledger \<Rightarrow> batch_request
    \<Rightarrow> batch_response" where
  "batch_balance_fresh env ledger req =
     (let where_clauses = batch_where_clauses env req;
          infos = period_info_loop env (b_periods req) [];
          target_sub = (if given (f_subsidiary (b_filters req)) then f_subsidiary (b_filters req)
                        else (case default_subsidiary_id env of
                                None \<Rightarrow> ''1'' | Some d \<Rightarrow> if d = [] then ''1'' else d));
          type_result = account_types ledger (build_account_filter (b_accounts req) ''acctnumber'');
          pl_accounts = (case type_result of
                           Rows rows \<Rightarrow> map at_acctnumber
                                          (filter (\<lambda>r. \<not> is_balance_sheet_account (at_accttype r)) rows)
                         | Error _ _ \<Rightarrow> b_accounts req);
          bs_accounts = (case type_result of
                           Rows rows \<Rightarrow> map at_acctnumber
                                          (filter (\<lambda>r. is_balance_sheet_account (at_accttype r)) rows)
                         | Error _ _ \<Rightarrow> [])
      in case pl_stage ledger req where_clauses target_sub pl_accounts of
           (_, True) \<Rightarrow> BatchError 500
         | (pl_stored, False) \<Rightarrow>
             (let bs_base_where = filter (\<lambda>c. \<not> is_account_clause c) where_clauses
                                  @ [Accounts (build_account_filter bs_accounts ''a.acctnumber'')];
                  all_balances =
                    (if bs_accounts \<noteq> [] \<and> infos \<noteq> []
                     then bs_period_loop ledger
                            (\<lambda>period info. build_bs_query_single_period (iso_date env) bs_accounts
                                period info bs_base_where target_sub True (b_accountingbook req))
                            infos pl_stored
                     else pl_stored)
              in BatchBalances
                   (fill_zeros (b_accounts req) (b_periods req)
                      (wildcard_loop (b_accounts req) all_balances))
                   False))"




text \<open>A ledger that knows account 4010 as income and account 1000 as a bank account, and
  whose Balance-Sheet queries (the ones without a sign factor) fail.\<close>

definition demo_batch_lookups :: batch_lookups where
  "demo_batch_lookups = lookups.extend demo_lookups
     \<lparr>calculate_period_end_date = (\<lambda>p. None)\<rparr>"

definition demo_batch_ledger :: batch_ledger where
  "demo_batch_ledger =
     \<lparr>account_types = (\<lambda>f. Rows [\<lparr>at_acctnumber = ''4010'', at_accttype = ''Income''\<rparr>,
                                  \<lparr>at_acctnumber = ''1000'', at_accttype = ''Bank''\<rparr>]),
      balance_rows = (\<lambda>q. if q_signs q = [] then Error ''Request timeout'' None
                          else Rows [\<lparr>br_acctnumber = ''4010'', br_periodname = ''Jan 2025'',
                                      br_balance = Num 250\<rparr>])\<rparr>"

definition demo_batch_request :: batch_request where
  "demo_batch_request = \<lparr>b_accounts = [''4010'', ''1000''], b_periods = [''Jan 2025''],
     b_filters = \<lparr>f_subsidiary = ''1'', f_department = [], f_location = [], f_class_id = []\<rparr>,
     b_wants_consolidated = False, b_accountingbook = ''1''\<rparr>"


text \<open>A ledger of the CTA queries whose query of the total liabilities fails with an error
  that is no rate limit, and one where the same query returns no row.\<close>

definition failing_ledger :: "component \<Rightarrow> nat \<Rightarrow> value_row qresult" where
  "failing_ledger c n = (if c = total_liabilities then Error ''NetSuite error: 500'' (Some ''Internal error'')
                         else demo_ledger c n)"

definition no_rows_ledger :: "component \<Rightarrow> nat \<Rightarrow> value_row qresult" where
  "no_rows_ledger c n = (if c = total_liabilities then Rows [] else demo_ledger c n)"

text \<open>Whether the component query \<open>c\<close>, after its retries, ends with an error.\<close>

definition fails :: "(component \<Rightarrow> nat \<Rightarrow> value_row qresult) \<Rightarrow> component \<Rightarrow> bool" where
  "fails ledger c = (case fst (query_with_retry (ledger c)) of
      Some (Error _ _) \<Rightarrow> True
    | _ \<Rightarrow> False)"

text \<open>The Balance-Sheet query that the batch of \<open>demo_batch_request\<close> issues for January
  2025.\<close>

definition demo_batch_bs_query :: balance_query where
  "demo_batch_bs_query =
     build_bs_query_single_period (iso_date demo_batch_lookups) [''1000''] ''Jan 2025''
       \<lparr>pi_enddate = ''1/31/2025'', pi_id = Some ''344''\<rparr>
       (filter (\<lambda>c. \<not> is_account_clause c) (batch_where_clauses demo_batch_lookups demo_batch_request)
        @ [Accounts (build_account_filter [''1000''] ''a.acctnumber'')])
       ''1'' True ''1''"

section \<open>Properties of the retry wrapper\<close>

lemma upt_3: "[0..<3] = [0, 1, 2::nat]"
  by (simp add: upt_rec)








section \<open>Properties of the derived metrics\<close>

lemma collect_results_lookup:
  "fst (collect_results order ledger results errs) c =
     (if c \<in> set order then Some (stored_value ledger c) else results c)"
proof (induction order arbitrary: results errs)
  case Nil
  then show ?case by simp
next
  case (Cons name rest)
  show ?case
    by (cases "parse_component (component_name name) (fst (query_with_retry (ledger name)))";
        cases "fst (parse_component (component_name name) (fst (query_with_retry (ledger name))))")
       (auto simp: Cons stored_value_def)
qed

lemma yields_stored: "yields ledger c x \<Longrightarrow> stored_value ledger c = x"
  by (auto simp: yields_def stored_value_def parse_component_def
           split: option.splits qresult.splits list.splits cell.splits)

lemma cta_results_get:
  assumes "c \<in> set order"
  shows "get_or (fst (collect_results order ledger Map.empty [])) c 0 = stored_value ledger c"
  using assms by (simp add: get_or_def collect_results_lookup)

lemma yields_re_parse:
  "yields_re ledger c x \<Longrightarrow>
   parse_component (component_name c) (fst (query_with_retry_re (ledger c))) = (Some x, [])"
  by (auto simp: yields_re_def parse_component_def
           split: option.splits qresult.splits list.splits cell.splits)

lemma collect_re_values:
  assumes "yields_re ledger prior_pl P" "\<forall>c \<in> set order. c \<noteq> prior_pl \<longrightarrow> yields_re ledger c R"
  shows "collect_re order ledger (p0, r0, errs) =
     (if prior_pl \<in> set order then P else p0, if \<exists>c \<in> set order. c \<noteq> prior_pl then R else r0, errs)"
  using assms
proof (induction order arbitrary: p0 r0)
  case Nil
  then show ?case by simp
next
  case (Cons name rest)
  show ?case
  proof (cases "name = prior_pl")
    case True
    with Cons show ?thesis by (simp add: yields_re_parse)
  next
    case False
    with Cons.prems have "yields_re ledger name R" by simp
    with False Cons show ?thesis by (simp add: yields_re_parse)
  qed
qed

text \<open>
  C1. When the six component queries of a CTA request yield \<open>A\<close>, \<open>L\<close>, \<open>E\<close>, \<open>P\<close>,
  \<open>R\<close> and \<open>N\<close>, the response is successful, its value is
  \<open>(A - L) - E - (P + R) - N\<close>, and its components report \<open>total_equity = A - L\<close> and
  \<open>retained_earnings = P + R\<close>; the Retained Earnings operation, whose two queries yield
  \<open>P\<close> and \<open>R\<close>, returns \<open>P + R\<close>.
\<close>

theorem C1_cta_plug_formula:
  assumes "set order = set all_components"
    and "yields ledger total_assets A" and "yields ledger total_liabilities L"
    and "yields ledger posted_equity E" and "yields ledger prior_pl P"
    and "yields ledger posted_re R" and "yields ledger net_income N"
    and "set re_order = {prior_pl, posted_re}"
    and "yields_re re_ledger prior_pl P" and "yields_re re_ledger posted_re R"
  shows "fst (calculate_cta period_name True order ledger) =
           Ok \<lparr>cta_value = (A - L) - E - (P + R) - N, cta_period = period_name,
               cta_comps = \<lparr>c_total_assets = A, c_total_liabilities = L, c_total_equity = A - L,
                 c_posted_equity = E, c_retained_earnings = P + R, c_net_income = N\<rparr>\<rparr> \<and>
         fst (calculate_retained_earnings period_name True re_order re_ledger) =
           Ok \<lparr>re_value = P + R, re_period = period_name,
               re_prior_years_pl = P, re_posted_re_adjustments = R\<rparr>"
proof
  have mem: "\<And>c. c \<in> set order"
    using assms(1) by (simp add: all_components_def) (metis component.exhaust insertCI)
  obtain results errs where cr: "collect_results order ledger Map.empty [] = (results, errs)"
    by (cases "collect_results order ledger Map.empty []")
  have g: "\<And>c. get_or results c 0 = stored_value ledger c"
    using cta_results_get[OF mem, of ledger] by (simp add: cr)
  show "fst (calculate_cta period_name True order ledger) =
           Ok \<lparr>cta_value = (A - L) - E - (P + R) - N, cta_period = period_name,
               cta_comps = \<lparr>c_total_assets = A, c_total_liabilities = L, c_total_equity = A - L,
                 c_posted_equity = E, c_retained_earnings = P + R, c_net_income = N\<rparr>\<rparr>"
    using assms(2-7)
    by (simp add: calculate_cta_def cr g yields_stored Let_def)
next
  have o: "prior_pl \<in> set re_order" "\<exists>c \<in> set re_order. c \<noteq> prior_pl"
    using assms(8) by auto
  have r: "\<forall>c \<in> set re_order. c \<noteq> prior_pl \<longrightarrow> yields_re re_ledger c R"
    using assms(8,10) by auto
  show "fst (calculate_retained_earnings period_name True re_order re_ledger) =
           Ok \<lparr>re_value = P + R, re_period = period_name,
               re_prior_years_pl = P, re_posted_re_adjustments = R\<rparr>"
    using o by (simp add: calculate_retained_earnings_def collect_re_values[OF assms(9) r] Let_def)
qed

theorem C1_cta_plug_formula_witness:
  "set all_components = set all_components \<and>
   yields demo_ledger total_assets 1000 \<and> yields demo_ledger total_liabilities 400 \<and>
   yields demo_ledger posted_equity 300 \<and> yields demo_ledger prior_pl 150 \<and>
   yields demo_ledger posted_re 20 \<and> yields demo_ledger net_income 100 \<and>
   set [posted_re, prior_pl] = {prior_pl, posted_re} \<and>
   yields_re demo_ledger prior_pl 150 \<and> yields_re demo_ledger posted_re 20 \<and>
   fst (calculate_cta ''Mar 2025'' True all_components demo_ledger) =
     Ok \<lparr>cta_value = 30, cta_period = ''Mar 2025'',
         cta_comps = \<lparr>c_total_assets = 1000, c_total_liabilities = 400, c_total_equity = 600,
           c_posted_equity = 300, c_retained_earnings = 170, c_net_income = 100\<rparr>\<rparr> \<and>
   fst (calculate_retained_earnings ''Mar 2025'' True [posted_re, prior_pl] demo_ledger) =
     Ok \<lparr>re_value = 170, re_period = ''Mar 2025'',
         re_prior_years_pl = 150, re_posted_re_adjustments = 20\<rparr>"
proof -
  have y: "yields demo_ledger total_assets 1000" "yields demo_ledger total_liabilities 400"
    "yields demo_ledger posted_equity 300" "yields demo_ledger prior_pl 150"
    "yields demo_ledger posted_re 20" "yields demo_ledger net_income 100"
    by (simp_all add: yields_def demo_ledger_def query_with_retry_def upt_3 rate_limited_def)
  have yr: "yields_re demo_ledger prior_pl 150" "yields_re demo_ledger posted_re 20"
    by (simp_all add: yields_re_def demo_ledger_def query_with_retry_re_def upt_3 rate_limited_def)
  have s: "set [posted_re, prior_pl] = {prior_pl, posted_re}" by auto
  show ?thesis
    using C1_cta_plug_formula[OF refl y s yr, of "''Mar 2025''"] y yr s by simp
qed

section \<open>Properties of the emitted queries\<close>

lemma period_conds_cumulative:
  assumes "to_p \<noteq> []" "isdigit to_p \<or> truthy (fst (snd (period_dates env to_p)))"
  shows "\<not> list_ex bounds_below (period_conds env [] to_p) \<and> list_ex bounds_above (period_conds env [] to_p)"
  using assms by (cases "period_dates env to_p") (auto simp: period_conds_def)

lemma period_conds_range:
  assumes "from_p \<noteq> []" "to_p \<noteq> []"
  shows "list_ex bounds_below (period_conds env from_p to_p) \<and> list_ex bounds_above (period_conds env from_p to_p)"
  using assms by (cases "period_dates env from_p"; cases "period_dates env to_p") (auto simp: period_conds_def)

lemma period_conds_resolved:
  assumes "from_p \<noteq> []" "to_p \<noteq> []" "\<not> (isdigit from_p \<and> isdigit to_p)"
    "period_dates env from_p = (Some s, fe, fi)" "period_dates env to_p = (ts, Some e, ti)" "s \<noteq> []" "e \<noteq> []"
  shows "period_conds env from_p to_p = [PeriodStartGE s, PeriodEndLE e]"
  using assms by (auto simp: period_conds_def truthy_def)

lemma subsidiary_conds_unbounded:
  "\<not> list_ex bounds_below (subsidiary_conds env req)" "\<not> list_ex bounds_above (subsidiary_conds env req)"
  by (simp_all add: subsidiary_conds_def)

lemma segment_conds_unbounded:
  "\<not> list_ex bounds_below (segment_conds req)" "\<not> list_ex bounds_above (segment_conds req)"
  by (simp_all add: segment_conds_def)

lemma list_ex_append: "list_ex P (xs @ ys) \<longleftrightarrow> list_ex P xs \<or> list_ex P ys"
  by (auto simp: list_ex_iff)

lemma get_balance_query_where:
  assumes "get_balance_query env req tr = Some q"
  shows "q_where q = [TPosting, TalPosting, Accounts (build_account_filter [req_account req] ''a.acctnumber''),
               AccountingBook (req_accounting_book req)]
              @ subsidiary_conds env req
              @ period_conds env (effective_from_period req (detect_bs_account (req_account req) tr))
                  (to_period_expanded req)
              @ segment_conds req"
proof -
  from assms have "req_account req \<noteq> []"
    by (auto simp: get_balance_query_def)
  with assms show ?thesis
    by (simp add: get_balance_query_def Let_def) (cases q, simp)
qed

lemma get_balance_query_bounds:
  assumes "get_balance_query env req tr = Some q"
  shows "has_lower_bound q = list_ex bounds_below (period_conds env
           (effective_from_period req (detect_bs_account (req_account req) tr)) (to_period_expanded req))"
    and "has_upper_bound q = list_ex bounds_above (period_conds env
           (effective_from_period req (detect_bs_account (req_account req) tr)) (to_period_expanded req))"
  by (simp_all add: has_lower_bound_def has_upper_bound_def get_balance_query_where[OF assms]
        list_ex_append subsidiary_conds_unbounded segment_conds_unbounded)

lemma get_balance_query_ignores_start:
  assumes "detect_bs_account (req_account req) tr" "req_to_period req \<noteq> []"
  shows "get_balance_query env (req\<lparr>req_from_period := f\<rparr>) tr = get_balance_query env req tr"
proof -
  have t: "to_period_expanded req \<noteq> []"
    using assms(2) by (simp add: to_period_expanded_def expand_year_to_periods_def)
  have te: "to_period_expanded (req\<lparr>req_from_period := f\<rparr>) = to_period_expanded req"
    by (simp add: to_period_expanded_def)
  have ef: "effective_from_period (req\<lparr>req_from_period := f\<rparr>) True = []" "effective_from_period req True = []"
    using t by (simp_all add: effective_from_period_def te)
  have sc: "subsidiary_conds env (req\<lparr>req_from_period := f\<rparr>) = subsidiary_conds env req"
    by (simp add: subsidiary_conds_def is_root_consolidated_def)
  have sg: "segment_conds (req\<lparr>req_from_period := f\<rparr>) = segment_conds req"
    by (simp add: segment_conds_def)
  have rc: "is_root_consolidated env (req\<lparr>req_from_period := f\<rparr>) = is_root_consolidated env req"
    by (simp add: is_root_consolidated_def)
  show ?thesis
    using assms(1) by (simp add: get_balance_query_def Let_def te ef sc sg rc)
qed

lemmas demo_eval = demo_request_def demo_lookups_def get_balance_query_def Let_def detect_bs_account_def
  is_balance_sheet_account_def is_balance_sheet_def PL_TYPES_def NON_FINANCIAL_TYPES_def
  effective_from_period_def from_period_expanded_def to_period_expanded_def is_year_only_def
  subsidiary_conds_def is_root_consolidated_def segment_conds_def period_conds_def
  isdigit_def is_digit_def build_account_filter_def strip_def is_space_def escape_sql_def
  truthy_def given_def INCOME_TYPES_def

lemma demo_bs_query:
  "get_balance_query demo_lookups demo_request (Rows [\<lparr>t_accttype = ''Bank''\<rparr>]) =
     Some \<lparr>q_amount = Consolidate ''2'' PostingPeriod,
           q_signs = [FlipTypes [''Income'', ''OthIncome'']],
           q_where = [TPosting, TalPosting, Accounts (AccountFilter ''a.acctnumber'' [''1000''] []),
                      AccountingBook ''1'', SubsidiaryEq ''2'', TranDateLE ''2025-03-31''],
           q_line_join = True, q_period_join = False, q_group_by = []\<rparr>"
  by (simp add: demo_eval)

lemma demo_pl_query:
  "get_balance_query demo_lookups (demo_request\<lparr>req_account := ''4010''\<rparr>)
       (Rows [\<lparr>t_accttype = ''Income''\<rparr>]) =
     Some \<lparr>q_amount = Consolidate ''2'' PostingPeriod,
           q_signs = [FlipTypes [''Income'', ''OthIncome'']],
           q_where = [TPosting, TalPosting, Accounts (AccountFilter ''a.acctnumber'' [''4010''] []),
                      AccountingBook ''1'', SubsidiaryEq ''2'',
                      PeriodStartGE ''1/1/2025'', PeriodEndLE ''3/31/2025''],
           q_line_join = True, q_period_join = True, q_group_by = []\<rparr>"
  by (simp add: demo_eval)

lemma demo_start_only_query:
  "get_balance_query demo_lookups (demo_request\<lparr>req_to_period := []\<rparr>)
       (Rows [\<lparr>t_accttype = ''Bank''\<rparr>]) =
     Some \<lparr>q_amount = Consolidate ''2'' PostingPeriod,
           q_signs = [FlipTypes [''Income'', ''OthIncome'']],
           q_where = [TPosting, TalPosting, Accounts (AccountFilter ''a.acctnumber'' [''1000''] []),
                      AccountingBook ''1'', SubsidiaryEq ''2'', PeriodNameEq ''Jan 2025''],
           q_line_join = True, q_period_join = True, q_group_by = []\<rparr>"
  by (simp add: demo_eval)

lemma demo_detect:
  "detect_bs_account ''1000'' (Rows [\<lparr>t_accttype = ''Bank''\<rparr>])"
  "\<not> detect_bs_account ''4010'' (Rows [\<lparr>t_accttype = ''Income''\<rparr>])"
  by (simp_all add: demo_eval)

lemma to_period_expanded_nonempty: "req_to_period req \<noteq> [] \<Longrightarrow> to_period_expanded req \<noteq> []"
  by (simp add: to_period_expanded_def expand_year_to_periods_def)

lemma from_period_expanded_nonempty: "req_from_period req \<noteq> [] \<Longrightarrow> from_period_expanded req \<noteq> []"
  by (simp add: from_period_expanded_def expand_year_to_periods_def)

text \<open>
  C5, as amended. An account type is a Balance-Sheet type iff it is in neither the P&L set nor
  the non-financial set, and \<open>get_balance\<close> takes an account without wildcard for a
  Balance-Sheet account iff the type that the ledger reports for it is one.
  For an account detected as a Balance-Sheet account, when an end period is given that is a
  period id or a name that resolves to an end date, the query has no lower bound, has an upper
  bound, and is the same whatever start period the caller gives.
  For an account not detected as one, with both periods given, the query is bounded below and
  above: by the start date of the start period and the end date of the end period when both
  names resolve.
  The Balance-Sheet builder of the batch path adds the upper bound on the transaction date and
  no lower bound; its P&L builder restricts the periods to the requested ones.
\<close>

theorem C5_balance_sheet_cumulative:
  "(is_balance_sheet_account t \<longleftrightarrow> t \<notin> set PL_TYPES \<and> t \<notin> set NON_FINANCIAL_TYPES) \<and>
   (CHR ''*'' \<notin> set a \<longrightarrow>
      detect_bs_account a (Rows (r # rs)) = is_balance_sheet_account (t_accttype r)) \<and>
   (get_balance_query env req tr = Some q \<and> detect_bs_account (req_account req) tr \<and>
    req_to_period req \<noteq> [] \<and>
    (isdigit (to_period_expanded req) \<or> truthy (fst (snd (period_dates env (to_period_expanded req)))))
      \<longrightarrow> \<not> has_lower_bound q \<and> has_upper_bound q \<and>
          get_balance_query env (req\<lparr>req_from_period := f\<rparr>) tr = Some q) \<and>
   (get_balance_query env preq ptr = Some pq \<and> \<not> detect_bs_account (req_account preq) ptr \<and>
    req_from_period preq \<noteq> [] \<and> req_to_period preq \<noteq> []
      \<longrightarrow> has_lower_bound pq \<and> has_upper_bound pq) \<and>
   (get_balance_query env preq ptr = Some pq \<and> \<not> detect_bs_account (req_account preq) ptr \<and>
    req_from_period preq \<noteq> [] \<and> req_to_period preq \<noteq> [] \<and>
    \<not> (isdigit (from_period_expanded preq) \<and> isdigit (to_period_expanded preq)) \<and>
    period_dates env (from_period_expanded preq) = (Some s, fe, fi) \<and>
    period_dates env (to_period_expanded preq) = (ts, Some e, ti) \<and> s \<noteq> [] \<and> e \<noteq> []
      \<longrightarrow> PeriodStartGE s \<in> set (q_where pq) \<and> PeriodEndLE e \<in> set (q_where pq)) \<and>
   (\<not> list_ex bounds_below base_where \<longrightarrow>
      \<not> has_lower_bound (build_bs_query_single_period to_iso accounts period_name info base_where
           target_sub needs_line_join book)) \<and>
   TranDateLE (to_iso (pi_enddate info)) \<in> set (q_where (build_bs_query_single_period to_iso accounts
           period_name info base_where target_sub needs_line_join book)) \<and>
   PeriodNameIn (map escape_sql periods) \<in> set (q_where (build_pl_query accounts periods base_where
           target_sub needs_line_join book))"
proof (intro conjI impI)
  show "is_balance_sheet_account t \<longleftrightarrow> t \<notin> set PL_TYPES \<and> t \<notin> set NON_FINANCIAL_TYPES"
    by (simp add: is_balance_sheet_account_def is_balance_sheet_def)
next
  assume "CHR ''*'' \<notin> set a"
  then show "detect_bs_account a (Rows (r # rs)) = is_balance_sheet_account (t_accttype r)"
    by (simp add: detect_bs_account_def)
next
  assume h: "get_balance_query env req tr = Some q \<and> detect_bs_account (req_account req) tr \<and>
    req_to_period req \<noteq> [] \<and>
    (isdigit (to_period_expanded req) \<or> truthy (fst (snd (period_dates env (to_period_expanded req)))))"
  then have q: "get_balance_query env req tr = Some q" and bs: "detect_bs_account (req_account req) tr"
    and t: "req_to_period req \<noteq> []"
    and res: "isdigit (to_period_expanded req) \<or> truthy (fst (snd (period_dates env (to_period_expanded req))))"
    by blast+
  have ef: "effective_from_period req True = []"
    using to_period_expanded_nonempty[OF t] by (simp add: effective_from_period_def)
  note pc = period_conds_cumulative[OF to_period_expanded_nonempty[OF t] res]
  show "\<not> has_lower_bound q" using pc by (simp add: get_balance_query_bounds(1)[OF q] bs ef)
  show "has_upper_bound q" using pc by (simp add: get_balance_query_bounds(2)[OF q] bs ef)
  show "get_balance_query env (req\<lparr>req_from_period := f\<rparr>) tr = Some q"
    using get_balance_query_ignores_start[OF bs t] q by simp
next
  assume h: "get_balance_query env preq ptr = Some pq \<and> \<not> detect_bs_account (req_account preq) ptr \<and>
    req_from_period preq \<noteq> [] \<and> req_to_period preq \<noteq> []"
  then have q: "get_balance_query env preq ptr = Some pq" and pl: "\<not> detect_bs_account (req_account preq) ptr"
    and f: "req_from_period preq \<noteq> []" and t: "req_to_period preq \<noteq> []"
    by blast+
  have ef: "effective_from_period preq False = from_period_expanded preq"
    by (simp add: effective_from_period_def)
  note pc = period_conds_range[OF from_period_expanded_nonempty[OF f] to_period_expanded_nonempty[OF t]]
  show "has_lower_bound pq" using pc by (simp add: get_balance_query_bounds(1)[OF q] pl ef)
  show "has_upper_bound pq" using pc by (simp add: get_balance_query_bounds(2)[OF q] pl ef)
next
  assume h: "get_balance_query env preq ptr = Some pq \<and> \<not> detect_bs_account (req_account preq) ptr \<and>
    req_from_period preq \<noteq> [] \<and> req_to_period preq \<noteq> [] \<and>
    \<not> (isdigit (from_period_expanded preq) \<and> isdigit (to_period_expanded preq)) \<and>
    period_dates env (from_period_expanded preq) = (Some s, fe, fi) \<and>
    period_dates env (to_period_expanded preq) = (ts, Some e, ti) \<and> s \<noteq> [] \<and> e \<noteq> []"
  then have q: "get_balance_query env preq ptr = Some pq" and pl: "\<not> detect_bs_account (req_account preq) ptr"
    and f: "req_from_period preq \<noteq> []" and t: "req_to_period preq \<noteq> []"
    and nd: "\<not> (isdigit (from_period_expanded preq) \<and> isdigit (to_period_expanded preq))"
    and d: "period_dates env (from_period_expanded preq) = (Some s, fe, fi)"
       "period_dates env (to_period_expanded preq) = (ts, Some e, ti)" "s \<noteq> []" "e \<noteq> []"
    by blast+
  have ef: "effective_from_period preq False = from_period_expanded preq"
    by (simp add: effective_from_period_def)
  note pc = period_conds_resolved[OF from_period_expanded_nonempty[OF f]
      to_period_expanded_nonempty[OF t] nd d]
  show "PeriodStartGE s \<in> set (q_where pq)"
    by (simp add: get_balance_query_where[OF q] pl ef pc)
  show "PeriodEndLE e \<in> set (q_where pq)"
    by (simp add: get_balance_query_where[OF q] pl ef pc)
next
  assume "\<not> list_ex bounds_below base_where"
  then show "\<not> has_lower_bound (build_bs_query_single_period to_iso accounts period_name info base_where
           target_sub needs_line_join book)"
    by (simp add: has_lower_bound_def build_bs_query_single_period_def list_ex_append)
next
  show "TranDateLE (to_iso (pi_enddate info)) \<in> set (q_where (build_bs_query_single_period to_iso accounts
           period_name info base_where target_sub needs_line_join book))"
    by (simp add: build_bs_query_single_period_def)
  show "PeriodNameIn (map escape_sql periods) \<in> set (q_where (build_pl_query accounts periods base_where
           target_sub needs_line_join book))"
    by (simp add: build_pl_query_def)
qed


theorem C5_balance_sheet_cumulative_witness:
  "CHR ''*'' \<notin> set ''1000'' \<and>
   detect_bs_account ''1000'' (Rows [\<lparr>t_accttype = ''Bank''\<rparr>]) \<and>
   req_to_period demo_request \<noteq> [] \<and>
   truthy (fst (snd (period_dates demo_lookups (to_period_expanded demo_request)))) \<and>
   map_option has_lower_bound (get_balance_query demo_lookups demo_request
       (Rows [\<lparr>t_accttype = ''Bank''\<rparr>])) = Some False \<and>
   get_balance_query demo_lookups (demo_request\<lparr>req_from_period := ''Feb 2025''\<rparr>)
       (Rows [\<lparr>t_accttype = ''Bank''\<rparr>]) =
     get_balance_query demo_lookups demo_request (Rows [\<lparr>t_accttype = ''Bank''\<rparr>]) \<and>
   \<not> detect_bs_account ''4010'' (Rows [\<lparr>t_accttype = ''Income''\<rparr>]) \<and>
   map_option has_lower_bound (get_balance_query demo_lookups (demo_request\<lparr>req_account := ''4010''\<rparr>)
       (Rows [\<lparr>t_accttype = ''Income''\<rparr>])) = Some True \<and>
   map_option has_upper_bound (get_balance_query demo_lookups (demo_request\<lparr>req_account := ''4010''\<rparr>)
       (Rows [\<lparr>t_accttype = ''Income''\<rparr>])) = Some True \<and>
   \<not> list_ex bounds_below [TPosting, TalPosting, SubsidiaryEq ''2''] \<and>
   \<not> has_lower_bound (build_bs_query_single_period (iso_date demo_lookups) [''1000''] ''Mar 2025''
       \<lparr>pi_enddate = ''3/31/2025'', pi_id = Some ''346''\<rparr> [TPosting, TalPosting, SubsidiaryEq ''2'']
       ''2'' True ''1'')"
proof -
  let ?bs = "Rows [\<lparr>t_accttype = ''Bank''\<rparr>]"
  let ?pl = "Rows [\<lparr>t_accttype = ''Income''\<rparr>]"
  let ?qbs = "\<lparr>q_amount = Consolidate ''2'' PostingPeriod,
           q_signs = [FlipTypes [''Income'', ''OthIncome'']],
           q_where = [TPosting, TalPosting, Accounts (AccountFilter ''a.acctnumber'' [''1000''] []),
                      AccountingBook ''1'', SubsidiaryEq ''2'', TranDateLE ''2025-03-31''],
           q_line_join = True, q_period_join = False, q_group_by = []\<rparr>"
  let ?qpl = "\<lparr>q_amount = Consolidate ''2'' PostingPeriod,
           q_signs = [FlipTypes [''Income'', ''OthIncome'']],
           q_where = [TPosting, TalPosting, Accounts (AccountFilter ''a.acctnumber'' [''4010''] []),
                      AccountingBook ''1'', SubsidiaryEq ''2'',
                      PeriodStartGE ''1/1/2025'', PeriodEndLE ''3/31/2025''],
           q_line_join = True, q_period_join = True, q_group_by = []\<rparr>"
  have a: "CHR ''*'' \<notin> set ''1000''" by simp
  have t: "req_to_period demo_request \<noteq> []" "req_from_period (demo_request\<lparr>req_account := ''4010''\<rparr>) \<noteq> []"
    "req_to_period (demo_request\<lparr>req_account := ''4010''\<rparr>) \<noteq> []"
    by (simp_all add: demo_request_def)
  have r: "truthy (fst (snd (period_dates demo_lookups (to_period_expanded demo_request))))"
    by (simp add: demo_eval)
  have d: "detect_bs_account (req_account demo_request) ?bs"
    "\<not> detect_bs_account (req_account (demo_request\<lparr>req_account := ''4010''\<rparr>)) ?pl"
    using demo_detect by (simp_all add: demo_request_def)
  have nd: "\<not> (isdigit (from_period_expanded (demo_request\<lparr>req_account := ''4010''\<rparr>)) \<and>
                 isdigit (to_period_expanded (demo_request\<lparr>req_account := ''4010''\<rparr>)))"
    by (simp add: demo_eval)
  have pd: "period_dates demo_lookups (from_period_expanded (demo_request\<lparr>req_account := ''4010''\<rparr>))
              = (Some ''1/1/2025'', Some ''1/31/2025'', Some ''344'')"
    "period_dates demo_lookups (to_period_expanded (demo_request\<lparr>req_account := ''4010''\<rparr>))
              = (Some ''3/1/2025'', Some ''3/31/2025'', Some ''346'')"
    by (simp_all add: demo_eval)
  have b: "\<not> list_ex bounds_below [TPosting, TalPosting, SubsidiaryEq ''2'']" by simp
  note inst = C5_balance_sheet_cumulative[where a = "''1000''" and env = demo_lookups
      and req = demo_request and tr = ?bs and f = "''Feb 2025''" and q = ?qbs and pq = ?qpl
      and preq = "demo_request\<lparr>req_account := ''4010''\<rparr>" and ptr = ?pl
      and s = "''1/1/2025''" and fe = "Some ''1/31/2025''" and fi = "Some ''344''"
      and ts = "Some ''3/1/2025''" and e = "''3/31/2025''" and ti = "Some ''346''"
      and base_where = "[TPosting, TalPosting, SubsidiaryEq ''2'']"
      and to_iso = "iso_date demo_lookups" and accounts = "[''1000'']" and period_name = "''Mar 2025''"
      and info = "\<lparr>pi_enddate = ''3/31/2025'', pi_id = Some ''346''\<rparr>"
      and target_sub = "''2''" and needs_line_join = True and book = "''1''", unfolded demo_bs_query demo_pl_query]
  show ?thesis
    using inst a t r d nd pd b demo_detect by (simp add: demo_bs_query demo_pl_query)
qed

text \<open>
  C5 as stated fails: for the Balance-Sheet account 1000 with a start period and no end period,
  the start period is not ignored; the query is restricted to that period.
\<close>

theorem C5_start_period_not_ignored_counterexample:
  "detect_bs_account (req_account (demo_request\<lparr>req_to_period := []\<rparr>)) (Rows [\<lparr>t_accttype = ''Bank''\<rparr>]) \<and>
   map_option has_lower_bound
     (get_balance_query demo_lookups (demo_request\<lparr>req_to_period := []\<rparr>) (Rows [\<lparr>t_accttype = ''Bank''\<rparr>]))
     = Some True \<and>
   map_option q_where
     (get_balance_query demo_lookups (demo_request\<lparr>req_to_period := []\<rparr>) (Rows [\<lparr>t_accttype = ''Bank''\<rparr>]))
     = Some [TPosting, TalPosting, Accounts (AccountFilter ''a.acctnumber'' [''1000''] []),
             AccountingBook ''1'', SubsidiaryEq ''2'', PeriodNameEq ''Jan 2025'']"
proof -
  have "req_account (demo_request\<lparr>req_to_period := []\<rparr>) = ''1000''"
    by (simp add: demo_request_def)
  then show ?thesis
    using demo_detect by (simp add: demo_start_only_query has_lower_bound_def)
qed

text \<open>
  C3. The cumulative Balance-Sheet query of \<open>get_balance\<close> (account 1000, of type Bank,
  through March 2025) and the prior-year query of the full-year refresh pass the column
  \<open>t.postingperiod\<close> to the consolidation primitive, where the Balance-Sheet builder of the
  batch path passes the id of the requested period.
\<close>

theorem C3_get_balance_posting_period_rate:
  "detect_bs_account (req_account demo_request) (Rows [\<lparr>t_accttype = ''Bank''\<rparr>]) \<and>
   map_option q_amount (get_balance_query demo_lookups demo_request (Rows [\<lparr>t_accttype = ''Bank''\<rparr>])) =
     Some (Consolidate ''2'' PostingPeriod) \<and>
   q_amount (prior_year_query bs_accounts target_sub accountingbook prior_year_end) =
     Consolidate target_sub PostingPeriod \<and>
   q_amount (build_bs_query_single_period to_iso accounts ''Mar 2025''
       \<lparr>pi_enddate = ''3/31/2025'', pi_id = Some ''346''\<rparr> base_where ''2'' needs_line_join book) =
     Consolidate ''2'' (PeriodId ''346'')"
proof -
  have "req_account demo_request = ''1000''"
    by (simp add: demo_request_def)
  then show ?thesis
    using demo_detect
    by (simp add: demo_bs_query prior_year_query_def build_bs_query_single_period_def truthy_def or_1_def)
qed


text \<open>
  C2. The P&L builder multiplies by the factor of the sign table, once: -1 for Income and
  Other Income, +1 for the expense types. The Balance-Sheet builder of the batch path applies
  no factor: liabilities and equity come out with the multiplier +1, where the table has -1.
\<close>

theorem C2_bs_single_period_does_not_flip:
  "q_signs (build_bs_query_single_period to_iso accounts period_name info base_where target_sub
      needs_line_join book) = [] \<and>
   sign_multiplier (q_signs (build_bs_query_single_period to_iso accounts period_name info base_where
      target_sub needs_line_join book)) ''AcctPay'' = 1 \<and>
   spec_sign_multiplier ''AcctPay'' = Some (- 1) \<and>
   sign_multiplier (q_signs (build_bs_query_single_period to_iso accounts period_name info base_where
      target_sub needs_line_join book)) ''Equity'' = 1 \<and>
   spec_sign_multiplier ''Equity'' = Some (- 1) \<and>
   sign_multiplier (q_signs (build_bs_query_single_period to_iso accounts period_name info base_where
      target_sub needs_line_join book)) ''Bank'' = 1 \<and>
   spec_sign_multiplier ''Bank'' = Some 1 \<and>
   q_signs (build_pl_query accounts periods base_where target_sub needs_line_join book)
     = [FlipTypes INCOME_TYPES] \<and>
   sign_multiplier (q_signs (build_pl_query accounts periods base_where target_sub needs_line_join book))
     ''Income'' = - 1 \<and>
   sign_multiplier (q_signs (build_pl_query accounts periods base_where target_sub needs_line_join book))
     ''OthIncome'' = - 1 \<and>
   sign_multiplier (q_signs (build_pl_query accounts periods base_where target_sub needs_line_join book))
     ''COGS'' = 1 \<and>
   sign_multiplier (q_signs (build_pl_query accounts periods base_where target_sub needs_line_join book))
     ''Cost of Goods Sold'' = 1 \<and>
   sign_multiplier (q_signs (build_pl_query accounts periods base_where target_sub needs_line_join book))
     ''Expense'' = 1 \<and>
   sign_multiplier (q_signs (build_pl_query accounts periods base_where target_sub needs_line_join book))
     ''OthExpense'' = 1"
  by (simp add: build_bs_query_single_period_def build_pl_query_def spec_sign_multiplier_def
        INCOME_TYPES_def BS_ASSET_TYPES_def BS_LIABILITY_TYPES_def BS_EQUITY_TYPES_def)

section \<open>Properties of the hierarchy resolution\<close>












section \<open>Properties of the full-year refresh\<close>

lemma str_int_2025: "str_int 2025 = ''2025''" by (simp add: str_int_def)
lemma str_int_2024: "str_int 2024 = ''2024''" by (simp add: str_int_def)



















lemma demo_filters_hash: "filters_hash (rf_filters demo_refresh_request) = ''1:::''"
  by (simp add: demo_refresh_request_def filters_hash_def)

lemma demo_fields:
  "rf_fiscal_year demo_refresh_request = 2025" "\<not> rf_skip_bs demo_refresh_request"
  "rf_target_sub demo_refresh_request = ''1''" "rf_accountingbook demo_refresh_request = ''1''"
  by (simp_all add: demo_refresh_request_def)

lemma period_of_2025: "period_of m 2025 = m @ '' 2025''"
  by (simp add: period_of_def str_int_2025)









lemma cache_key_refresh_key:
  assumes "m \<in> set month_order"
  shows "refresh_key fy fh (cache_key a (period_of m fy) fh)"
proof -
  have "suffix ('':'' @ period_of m fy @ '':'' @ fh) (a @ '':'' @ period_of m fy @ '':'' @ fh)"
    by (rule suffixI) simp
  then show ?thesis
    using assms unfolding refresh_key_def list_ex_iff cache_key_def by blast
qed

lemma alist_update_keys: "fst ` set (AList.update k v al) = insert k (fst ` set al)"
  using AList.dom_update[of k v al] by auto

lemma cache_periods_keys:
  "fst ` set (cache_periods a fh pd cache) = fst ` set cache \<union> (\<lambda>p. cache_key a p fh) ` fst ` set pd"
proof (induction pd arbitrary: cache)
  case Nil
  then show ?case by simp
next
  case (Cons pv pd)
  obtain p v where pv: "pv = (p, v)" by (cases pv)
  show ?case
    unfolding pv cache_periods.simps Cons.IH alist_update_keys by auto
qed

lemma cache_balances_keys:
  "fst ` set (cache_balances fh bal cache) =
     fst ` set cache \<union> (\<Union>(a, pd) \<in> set bal. (\<lambda>p. cache_key a p fh) ` fst ` set pd)"
proof (induction bal arbitrary: cache)
  case Nil
  then show ?case by simp
next
  case (Cons apd bal)
  obtain a pd where apd: "apd = (a, pd)" by (cases apd)
  show ?case
    unfolding apd cache_balances.simps Cons.IH cache_periods_keys by auto
qed

lemma update_set: "x \<in> set (AList.update k v al) \<Longrightarrow> x = (k, v) \<or> x \<in> set al"
proof (induction al)
  case Nil
  then show ?case by simp
next
  case (Cons p al)
  show ?case
  proof (cases "fst p = k")
    case True
    with Cons.prems show ?thesis by (cases p) auto
  next
    case False
    with Cons.prems have "x = p \<or> x \<in> set (AList.update k v al)" by (cases p) auto
    with Cons.IH show ?thesis by auto
  qed
qed

lemma month_mapping_snd: "snd ` set (month_mapping fy) = (\<lambda>m. period_of m fy) ` set month_order"
  by (simp add: month_mapping_def month_order_def)

lemma pl_balances_periods:
  assumes "(a, pd) \<in> set (pl_balances fy items bal)"
  shows "(a, pd) \<in> set bal \<or> fst ` set pd \<subseteq> (\<lambda>m. period_of m fy) ` set month_order"
  using assms
proof (induction items arbitrary: bal)
  case Nil
  then show ?case by simp
next
  case (Cons row items)
  show ?case
  proof (cases "truthy (pl_account_number row)")
    case False
    with Cons.prems have "(a, pd) \<in> set (pl_balances fy items bal)" by simp
    from Cons.IH[OF this] show ?thesis .
  next
    case True
    let ?pd = "map (\<lambda>(col_name, period_name).
                        (period_name, case pl_column row col_name of Some amount \<Rightarrow> amount | None \<Rightarrow> 0))
                     (month_mapping fy)"
    have "fst ` set ?pd = snd ` set (month_mapping fy)" by force
    then have new: "fst ` set ?pd \<subseteq> (\<lambda>m. period_of m fy) ` set month_order"
      by (simp only: month_mapping_snd subset_refl)
    from Cons.prems True
    have "(a, pd) \<in> set (pl_balances fy items (AList.update (the (pl_account_number row)) ?pd bal))"
      by simp
    from Cons.IH[OF this]
    have "(a, pd) \<in> set (AList.update (the (pl_account_number row)) ?pd bal)
          \<or> fst ` set pd \<subseteq> (\<lambda>m. period_of m fy) ` set month_order" .
    then show ?thesis
    proof
      assume "(a, pd) \<in> set (AList.update (the (pl_account_number row)) ?pd bal)"
      from update_set[OF this] new show ?thesis by blast
    next
      assume "fst ` set pd \<subseteq> (\<lambda>m. period_of m fy) ` set month_order"
      then show ?thesis by blast
    qed
  qed
qed

lemma month_loop_keys:
  "fst ` set (snd (month_loop ms y a fh act c (ab, cache))) =
     fst ` set cache \<union> (\<lambda>m. cache_key a (period_of m y) fh) ` set ms"
proof (induction ms arbitrary: c ab cache)
  case Nil
  then show ?case by simp
next
  case (Cons m ms)
  show ?case
    unfolding month_loop.simps Let_def Cons.IH alist_update_keys by auto
qed

lemma cumulative_loop_keys:
  "fst ` set (snd (cumulative_loop data y fh prior (bal, cache))) =
     fst ` set cache \<union> (\<Union>(a, act) \<in> set data. (\<lambda>m. cache_key a (period_of m y) fh) ` set month_order)"
proof (induction data arbitrary: bal cache)
  case Nil
  then show ?case by simp
next
  case (Cons p data)
  obtain a act where p: "p = (a, act)" by (cases p)
  let ?ml = "month_loop month_order y a fh act (case map_of prior a of None \<Rightarrow> 0 | Some b \<Rightarrow> b)
      (case map_of bal a of None \<Rightarrow> [] | Some b \<Rightarrow> b, cache)"
  obtain ab' cache' where ml: "?ml = (ab', cache')" by (cases ?ml)
  have k: "fst ` set cache' = fst ` set cache \<union> (\<lambda>m. cache_key a (period_of m y) fh) ` set month_order"
    using month_loop_keys[of month_order y a fh act "case map_of prior a of None \<Rightarrow> 0 | Some b \<Rightarrow> b"
        "case map_of bal a of None \<Rightarrow> [] | Some b \<Rightarrow> b" cache] ml
    by simp
  have step: "cumulative_loop (p # data) y fh prior (bal, cache) =
        cumulative_loop data y fh prior (AList.update a ab' bal, cache')"
    using p ml by (simp add: Let_def)
  have "fst ` set (snd (cumulative_loop (p # data) y fh prior (bal, cache))) =
        fst ` set (snd (cumulative_loop data y fh prior (AList.update a ab' bal, cache')))"
    by (simp only: step)
  also have "\<dots> = fst ` set cache' \<union>
        (\<Union>(a, act) \<in> set data. (\<lambda>m. cache_key a (period_of m y) fh) ` set month_order)"
    by (rule Cons.IH)
  also have "\<dots> = fst ` set cache \<union>
        (\<Union>(a, act) \<in> set (p # data). (\<lambda>m. cache_key a (period_of m y) fh) ` set month_order)"
    unfolding k p by auto
  finally show ?case .
qed

lemma refresh_state_skip:
  assumes "l_pl_items ledger = Some items" "rf_skip_bs req"
  shows "snd (batch_full_year_refresh conv now now_bs st req ledger) =
     st\<lparr>balance_cache := cache_balances (filters_hash (rf_filters req))
                              (pl_balances (rf_fiscal_year req) items []) [],
        balance_cache_timestamp := Some now\<rparr>"
  using assms by (simp add: batch_full_year_refresh_def Let_def)

lemma refresh_state_bs:
  assumes "l_pl_items ledger = Some items" "\<not> rf_skip_bs req"
    "bs_stage conv req ledger (pl_balances (rf_fiscal_year req) items [])
       (cache_balances (filters_hash (rf_filters req)) (pl_balances (rf_fiscal_year req) items []) [])
     = (balances', cache', activity_cache, accounts)"
  shows "snd (batch_full_year_refresh conv now now_bs st req ledger) =
     st\<lparr>balance_cache := cache', balance_cache_timestamp := Some now,
        bs_activity_cache := activity_cache, bs_activity_cache_timestamp := Some now_bs,
        bs_account_set := accounts\<rparr>"
  using assms by (simp add: batch_full_year_refresh_def Let_def)

lemma refresh_cache_keys:
  assumes "l_pl_items ledger = Some items"
    and "k \<in> fst ` set (balance_cache (snd (batch_full_year_refresh conv now now_bs st req ledger)))"
  shows "refresh_key (rf_fiscal_year req) (filters_hash (rf_filters req)) k"
proof -
  let ?fy = "rf_fiscal_year req" and ?fh = "filters_hash (rf_filters req)"
  let ?bal = "pl_balances ?fy items []"
  let ?cache = "cache_balances ?fh ?bal []"
  have pl: "refresh_key ?fy ?fh k'" if "k' \<in> fst ` set ?cache" for k'
  proof -
    from that obtain a pd p where apd: "(a, pd) \<in> set ?bal" "p \<in> fst ` set pd" "k' = cache_key a p ?fh"
      unfolding cache_balances_keys by auto
    from pl_balances_periods[OF apd(1)] apd(2) obtain m where "m \<in> set month_order" "p = period_of m ?fy"
      by auto
    with apd(3) show ?thesis by (simp add: cache_key_refresh_key)
  qed
  have cum: "refresh_key ?fy ?fh k'"
    if "k' \<in> fst ` set (snd (cumulative_loop data ?fy ?fh prior (?bal, ?cache)))" for k' data prior
  proof -
    from that have "k' \<in> fst ` set ?cache \<or>
        (\<exists>a. \<exists>m \<in> set month_order. k' = cache_key a (period_of m ?fy) ?fh)"
      unfolding cumulative_loop_keys by auto
    then show ?thesis using pl cache_key_refresh_key by blast
  qed
  show ?thesis
  proof (cases "rf_skip_bs req")
    case True
    with assms have "k \<in> fst ` set ?cache"
      by (simp add: refresh_state_skip)
    then show ?thesis by (rule pl)
  next
    case False
    obtain b c ac accs where bs: "bs_stage conv req ledger ?bal ?cache = (b, c, ac, accs)"
      by (metis prod_cases4)
    from assms(2) have kc: "k \<in> fst ` set c"
      by (simp add: refresh_state_bs[OF assms(1) False bs])
    show ?thesis
    proof (cases "l_bs_items ledger")
      case None
      with bs have "c = ?cache" by (auto simp: bs_stage_def Let_def)
      with kc show ?thesis using pl by simp
    next
      case (Some rows)
      obtain r ac' s' where loop: "bs_activity_loop conv ?fh rows ([], [], {}) = (r, ac', s')"
        by (metis prod_cases3)
      show ?thesis
      proof (cases r)
        case None
        with bs Some loop have "c = ?cache" by (auto simp: bs_stage_def Let_def)
        with kc show ?thesis using pl by simp
      next
        case (Some d)
        obtain data ac0 s0 where d: "d = (data, ac0, s0)" by (metis prod_cases3)
        from bs \<open>l_bs_items ledger = Some rows\<close> loop Some d
        have "c = snd (cumulative_loop data ?fy ?fh (prior_year_balances_for req ledger data) (?bal, ?cache))"
          by (auto simp: bs_stage_def Let_def split: prod.splits)
        with kc show ?thesis using cum by simp
      qed
    qed
  qed
qed

lemma refresh_independent:
  assumes "l_pl_items ledger = Some items"
  shows "balance_cache (snd (batch_full_year_refresh conv now now_bs st req ledger)) =
         balance_cache (snd (batch_full_year_refresh conv now now_bs st' req ledger))"
    and "\<not> rf_skip_bs req \<Longrightarrow>
         bs_activity_cache (snd (batch_full_year_refresh conv now now_bs st req ledger)) =
         bs_activity_cache (snd (batch_full_year_refresh conv now now_bs st' req ledger))"
    and "rf_skip_bs req \<Longrightarrow>
         bs_activity_cache (snd (batch_full_year_refresh conv now now_bs st req ledger)) =
         bs_activity_cache st"
proof -
  obtain b c ac accs where bs: "bs_stage conv req ledger (pl_balances (rf_fiscal_year req) items [])
       (cache_balances (filters_hash (rf_filters req)) (pl_balances (rf_fiscal_year req) items []) [])
     = (b, c, ac, accs)"
    by (metis prod_cases4)
  show "balance_cache (snd (batch_full_year_refresh conv now now_bs st req ledger)) =
         balance_cache (snd (batch_full_year_refresh conv now now_bs st' req ledger))"
  proof (cases "rf_skip_bs req")
    case True
    then show ?thesis by (simp add: refresh_state_skip[OF assms])
  next
    case False
    then show ?thesis by (simp add: refresh_state_bs[OF assms False bs])
  qed
  show "bs_activity_cache (snd (batch_full_year_refresh conv now now_bs st req ledger)) =
         bs_activity_cache (snd (batch_full_year_refresh conv now now_bs st' req ledger))"
    if "\<not> rf_skip_bs req"
    by (simp add: refresh_state_bs[OF assms that bs])
  show "bs_activity_cache (snd (batch_full_year_refresh conv now now_bs st req ledger)) =
         bs_activity_cache st"
    if "rf_skip_bs req"
    by (simp add: refresh_state_skip[OF assms that])
qed

text \<open>
  C10, as amended. A refresh whose P&L query succeeds replaces the balance cache: the cache
  after it does not depend on the caches before it, its timestamp is the time of the refresh,
  and every key ends with a month of the refresh's fiscal year and the refresh's filters
  hash. The activity cache is replaced as well when the Balance-Sheet stage runs; with
  \<open>skip_bs\<close> it is left as it was.
\<close>

theorem C10_refresh_replaces_balance_cache:
  assumes "l_pl_items ledger = Some items"
  shows "balance_cache (snd (batch_full_year_refresh conv now now_bs st req ledger)) =
           balance_cache (snd (batch_full_year_refresh conv now now_bs st' req ledger)) \<and>
         balance_cache_timestamp (snd (batch_full_year_refresh conv now now_bs st req ledger)) = Some now \<and>
         (\<forall>k \<in> fst ` set (balance_cache (snd (batch_full_year_refresh conv now now_bs st req ledger))).
             refresh_key (rf_fiscal_year req) (filters_hash (rf_filters req)) k) \<and>
         (\<not> rf_skip_bs req \<longrightarrow>
            bs_activity_cache (snd (batch_full_year_refresh conv now now_bs st req ledger)) =
            bs_activity_cache (snd (batch_full_year_refresh conv now now_bs st' req ledger))) \<and>
         (rf_skip_bs req \<longrightarrow>
            bs_activity_cache (snd (batch_full_year_refresh conv now now_bs st req ledger)) =
            bs_activity_cache st)"
proof (intro conjI impI ballI)
  show "balance_cache (snd (batch_full_year_refresh conv now now_bs st req ledger)) =
           balance_cache (snd (batch_full_year_refresh conv now now_bs st' req ledger))"
    by (rule refresh_independent(1)[OF assms])
  show "balance_cache_timestamp (snd (batch_full_year_refresh conv now now_bs st req ledger)) = Some now"
  proof (cases "rf_skip_bs req")
    case True
    then show ?thesis by (simp add: refresh_state_skip[OF assms])
  next
    case False
    obtain b c ac accs where bs: "bs_stage conv req ledger (pl_balances (rf_fiscal_year req) items [])
       (cache_balances (filters_hash (rf_filters req)) (pl_balances (rf_fiscal_year req) items []) [])
     = (b, c, ac, accs)"
      by (metis prod_cases4)
    show ?thesis by (simp add: refresh_state_bs[OF assms False bs])
  qed
next
  fix k
  assume "k \<in> fst ` set (balance_cache (snd (batch_full_year_refresh conv now now_bs st req ledger)))"
  then show "refresh_key (rf_fiscal_year req) (filters_hash (rf_filters req)) k"
    by (rule refresh_cache_keys[OF assms])
next
  assume "\<not> rf_skip_bs req"
  then show "bs_activity_cache (snd (batch_full_year_refresh conv now now_bs st req ledger)) =
            bs_activity_cache (snd (batch_full_year_refresh conv now now_bs st' req ledger))"
    by (rule refresh_independent(2)[OF assms])
next
  assume "rf_skip_bs req"
  then show "bs_activity_cache (snd (batch_full_year_refresh conv now now_bs st req ledger)) =
            bs_activity_cache st"
    by (rule refresh_independent(3)[OF assms])
qed

lemma stale_key_not_refresh_key: "\<not> refresh_key 2025 ''1:::'' ''1000:Jan 2024:9:::''"
  by (simp add: refresh_key_def month_order_def period_of_2025 suffix_to_prefix)

theorem C10_refresh_replaces_balance_cache_witness:
  "l_pl_items demo_refresh_ledger = Some [] \<and> \<not> rf_skip_bs demo_refresh_request \<and>
   ''1000:Jan 2024:9:::'' \<in> fst ` set (balance_cache stale_state) \<and>
   ''1000:Jan 2024:9:::'' \<notin> fst ` set (balance_cache
      (snd (batch_full_year_refresh demo_conv 10 11 stale_state demo_refresh_request demo_refresh_ledger))) \<and>
   balance_cache (snd (batch_full_year_refresh demo_conv 10 11 stale_state demo_refresh_request
      demo_refresh_ledger)) =
   balance_cache (snd (batch_full_year_refresh demo_conv 10 11 empty_state demo_refresh_request
      demo_refresh_ledger)) \<and>
   bs_activity_cache (snd (batch_full_year_refresh demo_conv 10 11 stale_state demo_refresh_request
      demo_refresh_ledger)) =
   bs_activity_cache (snd (batch_full_year_refresh demo_conv 10 11 empty_state demo_refresh_request
      demo_refresh_ledger))"
proof -
  have pl: "l_pl_items demo_refresh_ledger = Some []"
    by (simp add: demo_refresh_ledger_def)
  have st: "''1000:Jan 2024:9:::'' \<in> fst ` set (balance_cache stale_state)"
    by (simp add: stale_state_def)
  note inst = C10_refresh_replaces_balance_cache[OF pl, of demo_conv 10 11 stale_state demo_refresh_request
      empty_state]
  from inst have keys: "\<forall>k \<in> fst ` set (balance_cache
      (snd (batch_full_year_refresh demo_conv 10 11 stale_state demo_refresh_request demo_refresh_ledger))).
        refresh_key (rf_fiscal_year demo_refresh_request) (filters_hash (rf_filters demo_refresh_request)) k"
    by blast
  have gone: "''1000:Jan 2024:9:::'' \<notin> fst ` set (balance_cache
      (snd (batch_full_year_refresh demo_conv 10 11 stale_state demo_refresh_request demo_refresh_ledger)))"
  proof
    assume "''1000:Jan 2024:9:::'' \<in> fst ` set (balance_cache
      (snd (batch_full_year_refresh demo_conv 10 11 stale_state demo_refresh_request demo_refresh_ledger)))"
    with keys have "refresh_key (rf_fiscal_year demo_refresh_request)
        (filters_hash (rf_filters demo_refresh_request)) ''1000:Jan 2024:9:::''" by blast
    then show False
      using stale_key_not_refresh_key by (simp add: demo_fields demo_filters_hash)
  qed
  from inst demo_fields(2) show ?thesis
    using pl st gone by blast
qed

text \<open>
  C10 as stated fails for the activity cache: a refresh with \<open>skip_bs\<close> completes and leaves
  the entry of an earlier refresh, for another year and other filters, in the activity cache.
\<close>

theorem C10_skip_bs_keeps_activity_cache_counterexample:
  "fst (batch_full_year_refresh demo_conv 10 11 stale_state (demo_refresh_request\<lparr>rf_skip_bs := True\<rparr>)
      demo_refresh_ledger) = PLOnly [] \<and>
   bs_activity_cache (snd (batch_full_year_refresh demo_conv 10 11 stale_state
      (demo_refresh_request\<lparr>rf_skip_bs := True\<rparr>) demo_refresh_ledger))
     = [(''activity:1000:Jan 2024:9:::'', 7)]"
  by (simp add: batch_full_year_refresh_def demo_refresh_ledger_def demo_refresh_request_def
        stale_state_def Let_def)

section \<open>Properties of the batch balance\<close>







lemma demo_fresh:
  "batch_balance_fresh demo_batch_lookups demo_batch_ledger demo_batch_request =
     BatchBalances [(''4010'', [(''Jan 2025'', 250)]), (''1000'', [(''Jan 2025'', 0)])] False"
  by code_simp



section \<open>Properties of failed component queries\<close>

lemma fails_parse:
  "fails ledger c \<Longrightarrow>
   \<exists>msg. parse_component (component_name c) (fst (query_with_retry (ledger c))) =
            (Some 0, [component_name c @ '': '' @ msg])"
  by (auto simp: fails_def parse_component_def split: option.splits qresult.splits)

lemma fails_stored: "fails ledger c \<Longrightarrow> stored_value ledger c = 0"
  using fails_parse[of ledger c] by (auto simp: stored_value_def)

lemma no_rows_retry: "fst (query_with_retry (\<lambda>n. Rows [])) = Some (Rows [])"
  by (simp add: query_with_retry_def upt_3 rate_limited_def)

lemma stored_value_no_rows:
  "stored_value (ledger(c := \<lambda>n. Rows [])) c' = (if c' = c then 0 else stored_value ledger c')"
  by (simp add: stored_value_def no_rows_retry parse_component_def)

lemma collect_results_errors:
  "snd (collect_results order ledger results errs) =
     errs @ concat (map (\<lambda>name. snd (parse_component (component_name name)
                                      (fst (query_with_retry (ledger name))))) order)"
proof (induction order arbitrary: results errs)
  case Nil
  then show ?case by simp
next
  case (Cons name rest)
  show ?case
    by (cases "parse_component (component_name name) (fst (query_with_retry (ledger name)))";
        cases "fst (parse_component (component_name name) (fst (query_with_retry (ledger name))))")
       (auto simp: Cons)
qed

lemma cta_response:
  "fst (calculate_cta period_name True order ledger) =
     (let results = fst (collect_results order ledger Map.empty []);
          A = get_or results total_assets 0; L = get_or results total_liabilities 0;
          E = get_or results posted_equity 0; P = get_or results prior_pl 0;
          R = get_or results posted_re 0; N = get_or results net_income 0
      in Ok \<lparr>cta_value = (A - L) - E - (P + R) - N, cta_period = period_name,
              cta_comps = \<lparr>c_total_assets = A, c_total_liabilities = L, c_total_equity = A - L,
                 c_posted_equity = E, c_retained_earnings = P + R, c_net_income = N\<rparr>\<rparr>)"
  by (simp add: calculate_cta_def Let_def split: prod.splits)

lemma cta_errors:
  "snd (calculate_cta period_name True order ledger) = snd (collect_results order ledger Map.empty [])"
  by (simp add: calculate_cta_def Let_def split: prod.splits)

lemma cta_same_as_no_rows:
  assumes "fails ledger c"
  shows "fst (calculate_cta period_name True order (ledger(c := \<lambda>n. Rows []))) =
         fst (calculate_cta period_name True order ledger)"
proof -
  have "stored_value (ledger(c := \<lambda>n. Rows [])) c' = stored_value ledger c'" for c'
    using fails_stored[OF assms] by (simp add: stored_value_no_rows)
  hence "fst (collect_results order (ledger(c := \<lambda>n. Rows [])) Map.empty []) =
         fst (collect_results order ledger Map.empty [])"
    by (intro ext) (simp add: collect_results_lookup)
  thus ?thesis by (simp add: cta_response)
qed

lemma pl_year_loop_same:
  assumes "balance_rows ledger q = Error e d"
    and "balance_rows ledger' = (balance_rows ledger)(q := Rows [])"
  shows "pl_year_loop ledger' build ys ab = pl_year_loop ledger build ys ab"
proof (induction ys arbitrary: ab)
  case Nil
  then show ?case by simp
next
  case (Cons y ys)
  obtain year ps where y: "y = (year, ps)" by (cases y)
  show ?case
    by (cases "build ps = q")
       (simp_all add: y Cons assms split: qresult.splits prod.splits bool.splits)
qed

lemma bs_period_loop_same:
  assumes "balance_rows ledger q = Error e d"
    and "balance_rows ledger' = (balance_rows ledger)(q := Rows [])"
  shows "bs_period_loop ledger' build infos ab = bs_period_loop ledger build infos ab"
proof (induction infos arbitrary: ab)
  case Nil
  then show ?case by simp
next
  case (Cons y ys)
  obtain period info where y: "y = (period, info)" by (cases y)
  show ?case
    by (cases "build period info = q") (simp_all add: y Cons assms split: qresult.splits)
qed

lemma pl_stage_same:
  assumes "balance_rows ledger q = Error e d"
    and "balance_rows ledger' = (balance_rows ledger)(q := Rows [])"
  shows "pl_stage ledger' req wc ts pl = pl_stage ledger req wc ts pl"
  by (simp add: pl_stage_def Let_def pl_year_loop_same[OF assms] assms)

lemma batch_fresh_same:
  assumes "balance_rows ledger q = Error e d"
  shows "batch_balance_fresh env (ledger\<lparr>balance_rows := (balance_rows ledger)(q := Rows [])\<rparr>) req =
         batch_balance_fresh env ledger req"
proof -
  let ?ledger' = "ledger\<lparr>balance_rows := (balance_rows ledger)(q := Rows [])\<rparr>"
  have b: "balance_rows ?ledger' = (balance_rows ledger)(q := Rows [])" by simp
  have a: "account_types ?ledger' = account_types ledger" by simp
  show ?thesis
    unfolding batch_balance_fresh_def pl_stage_same[OF assms b] bs_period_loop_same[OF assms b] a ..
qed

lemma failing_cta:
  "calculate_cta ''Mar 2025'' True all_components failing_ledger =
     (Ok \<lparr>cta_value = 430, cta_period = ''Mar 2025'',
          cta_comps = \<lparr>c_total_assets = 1000, c_total_liabilities = 0, c_total_equity = 1000,
            c_posted_equity = 300, c_retained_earnings = 170, c_net_income = 100\<rparr>\<rparr>,
      [''total_liabilities: Internal error''])"
  by code_simp

lemma no_rows_cta:
  "calculate_cta ''Mar 2025'' True all_components no_rows_ledger =
     (Ok \<lparr>cta_value = 430, cta_period = ''Mar 2025'',
          cta_comps = \<lparr>c_total_assets = 1000, c_total_liabilities = 0, c_total_equity = 1000,
            c_posted_equity = 300, c_retained_earnings = 170, c_net_income = 100\<rparr>\<rparr>,
      [])"
  by code_simp

lemma failing_fails: "fails failing_ledger total_liabilities"
  by code_simp

lemma no_rows_not_fails: "\<not> fails no_rows_ledger total_liabilities"
  by code_simp

lemma demo_batch_bs_query_fails:
  "balance_rows demo_batch_ledger demo_batch_bs_query = Error ''Request timeout'' None"
  by (simp add: demo_batch_ledger_def demo_batch_bs_query_def build_bs_query_single_period_def)

text \<open>
  C7. When the query of a component \<open>c\<close> of a CTA request ends with an error, the request
  succeeds, the component counts as 0 (a failed query of the total liabilities gives
  \<open>total_liabilities = 0\<close> and \<open>total_equity = total_assets\<close>), and a message that starts
  with the name of the component is appended to the local list \<open>query_errors\<close>; the payload
  of the response is the payload of the run in which that query returned no row. When a
  balance query of a batch, such as the Balance-Sheet query of one period, ends with an
  error, the response of the batch is the response of the run in which that query returned
  no row.
\<close>

theorem C7_failed_component_is_silent_zero:
  assumes "fails ledger c" and "c \<in> set order"
    and "balance_rows batch_ledger q = Error e d"
  shows "(\<exists>payload.
            fst (calculate_cta period_name True order ledger) = Ok payload \<and>
            fst (calculate_cta period_name True order (ledger(c := \<lambda>n. Rows []))) = Ok payload \<and>
            (c = total_liabilities \<longrightarrow>
               c_total_liabilities (cta_comps payload) = 0 \<and>
               c_total_equity (cta_comps payload) = c_total_assets (cta_comps payload)) \<and>
            (c = total_assets \<longrightarrow> c_total_assets (cta_comps payload) = 0) \<and>
            (c = posted_equity \<longrightarrow> c_posted_equity (cta_comps payload) = 0) \<and>
            (c = net_income \<longrightarrow> c_net_income (cta_comps payload) = 0)) \<and>
         (\<exists>msg \<in> set (snd (calculate_cta period_name True order ledger)).
            prefix (component_name c @ '': '') msg) \<and>
         batch_balance_fresh env (batch_ledger\<lparr>balance_rows := (balance_rows batch_ledger)(q := Rows [])\<rparr>) req =
           batch_balance_fresh env batch_ledger req"
proof (intro conjI)
  define results where "results = fst (collect_results order ledger Map.empty [])"
  have z: "get_or results c 0 = 0"
    using cta_results_get[OF assms(2), of ledger] fails_stored[OF assms(1)] by (simp add: results_def)
  let ?payload = "\<lparr>cta_value = (get_or results total_assets 0 - get_or results total_liabilities 0)
                     - get_or results posted_equity 0
                     - (get_or results prior_pl 0 + get_or results posted_re 0)
                     - get_or results net_income 0,
                   cta_period = period_name,
                   cta_comps = \<lparr>c_total_assets = get_or results total_assets 0,
                     c_total_liabilities = get_or results total_liabilities 0,
                     c_total_equity = get_or results total_assets 0 - get_or results total_liabilities 0,
                     c_posted_equity = get_or results posted_equity 0,
                     c_retained_earnings = get_or results prior_pl 0 + get_or results posted_re 0,
                     c_net_income = get_or results net_income 0\<rparr>\<rparr>"
  have p: "fst (calculate_cta period_name True order ledger) = Ok ?payload"
    by (simp add: cta_response Let_def results_def)
  have p': "fst (calculate_cta period_name True order (ledger(c := \<lambda>n. Rows []))) = Ok ?payload"
    using cta_same_as_no_rows[OF assms(1)] p by simp
  show "\<exists>payload.
            fst (calculate_cta period_name True order ledger) = Ok payload \<and>
            fst (calculate_cta period_name True order (ledger(c := \<lambda>n. Rows []))) = Ok payload \<and>
            (c = total_liabilities \<longrightarrow>
               c_total_liabilities (cta_comps payload) = 0 \<and>
               c_total_equity (cta_comps payload) = c_total_assets (cta_comps payload)) \<and>
            (c = total_assets \<longrightarrow> c_total_assets (cta_comps payload) = 0) \<and>
            (c = posted_equity \<longrightarrow> c_posted_equity (cta_comps payload) = 0) \<and>
            (c = net_income \<longrightarrow> c_net_income (cta_comps payload) = 0)"
    using p p' z by (intro exI[of _ ?payload]) auto
next
  from fails_parse[OF assms(1)] obtain msg where
    m: "parse_component (component_name c) (fst (query_with_retry (ledger c))) =
          (Some 0, [component_name c @ '': '' @ msg])" ..
  have "component_name c @ '': '' @ msg \<in> set (snd (calculate_cta period_name True order ledger))"
    using assms(2) m by (force simp: cta_errors collect_results_errors)
  moreover have "prefix (component_name c @ '': '') (component_name c @ '': '' @ msg)"
    by (simp add: prefix_def)
  ultimately show "\<exists>msg \<in> set (snd (calculate_cta period_name True order ledger)).
            prefix (component_name c @ '': '') msg" ..
next
  show "batch_balance_fresh env (batch_ledger\<lparr>balance_rows := (balance_rows batch_ledger)(q := Rows [])\<rparr>) req =
           batch_balance_fresh env batch_ledger req"
    by (rule batch_fresh_same[OF assms(3)])
qed

theorem C7_failed_component_is_silent_zero_witness:
  "fails failing_ledger total_liabilities \<and> total_liabilities \<in> set all_components \<and>
   balance_rows demo_batch_ledger demo_batch_bs_query = Error ''Request timeout'' None \<and>
   calculate_cta ''Mar 2025'' True all_components failing_ledger =
     (Ok \<lparr>cta_value = 430, cta_period = ''Mar 2025'',
          cta_comps = \<lparr>c_total_assets = 1000, c_total_liabilities = 0, c_total_equity = 1000,
            c_posted_equity = 300, c_retained_earnings = 170, c_net_income = 100\<rparr>\<rparr>,
      [''total_liabilities: Internal error'']) \<and>
   fst (calculate_cta ''Mar 2025'' True all_components (failing_ledger(total_liabilities := \<lambda>n. Rows []))) =
     Ok \<lparr>cta_value = 430, cta_period = ''Mar 2025'',
          cta_comps = \<lparr>c_total_assets = 1000, c_total_liabilities = 0, c_total_equity = 1000,
            c_posted_equity = 300, c_retained_earnings = 170, c_net_income = 100\<rparr>\<rparr> \<and>
   batch_balance_fresh demo_batch_lookups
       (demo_batch_ledger\<lparr>balance_rows := (balance_rows demo_batch_ledger)(demo_batch_bs_query := Rows [])\<rparr>)
       demo_batch_request =
     BatchBalances [(''4010'', [(''Jan 2025'', 250)]), (''1000'', [(''Jan 2025'', 0)])] False"
proof -
  have mem: "total_liabilities \<in> set all_components" by (simp add: all_components_def)
  note inst = C7_failed_component_is_silent_zero[OF failing_fails mem demo_batch_bs_query_fails,
      of "''Mar 2025''" demo_batch_lookups demo_batch_request]
  from inst obtain payload where
    "fst (calculate_cta ''Mar 2025'' True all_components failing_ledger) = Ok payload"
    "fst (calculate_cta ''Mar 2025'' True all_components (failing_ledger(total_liabilities := \<lambda>n. Rows []))) =
       Ok payload"
    by blast
  hence same: "fst (calculate_cta ''Mar 2025'' True all_components
                 (failing_ledger(total_liabilities := \<lambda>n. Rows []))) =
     Ok \<lparr>cta_value = 430, cta_period = ''Mar 2025'',
          cta_comps = \<lparr>c_total_assets = 1000, c_total_liabilities = 0, c_total_equity = 1000,
            c_posted_equity = 300, c_retained_earnings = 170, c_net_income = 100\<rparr>\<rparr>"
    by (simp add: failing_cta)
  from inst have batch: "batch_balance_fresh demo_batch_lookups
       (demo_batch_ledger\<lparr>balance_rows := (balance_rows demo_batch_ledger)(demo_batch_bs_query := Rows [])\<rparr>)
       demo_batch_request =
     BatchBalances [(''4010'', [(''Jan 2025'', 250)]), (''1000'', [(''Jan 2025'', 0)])] False"
    by (simp add: demo_fresh)
  from failing_fails mem demo_batch_bs_query_fails failing_cta same batch show ?thesis by blast
qed

text \<open>
  The payload of a CTA response whose query of the total liabilities failed is the payload of
  the response whose query returned no row: the payload does not tell the two apart. The
  response of a batch whose Balance-Sheet query failed holds balances only, with 0 for the
  Balance-Sheet account.
\<close>

theorem C7_failure_not_in_response_counterexample:
  "fails failing_ledger total_liabilities \<and> \<not> fails no_rows_ledger total_liabilities \<and>
   fst (calculate_cta ''Mar 2025'' True all_components failing_ledger) =
     Ok \<lparr>cta_value = 430, cta_period = ''Mar 2025'',
          cta_comps = \<lparr>c_total_assets = 1000, c_total_liabilities = 0, c_total_equity = 1000,
            c_posted_equity = 300, c_retained_earnings = 170, c_net_income = 100\<rparr>\<rparr> \<and>
   fst (calculate_cta ''Mar 2025'' True all_components no_rows_ledger) =
     fst (calculate_cta ''Mar 2025'' True all_components failing_ledger) \<and>
   balance_rows demo_batch_ledger demo_batch_bs_query = Error ''Request timeout'' None \<and>
   batch_balance_fresh demo_batch_lookups demo_batch_ledger demo_batch_request =
     BatchBalances [(''4010'', [(''Jan 2025'', 250)]), (''1000'', [(''Jan 2025'', 0)])] False"
  using failing_fails no_rows_not_fails demo_batch_bs_query_fails
  by (simp add: failing_cta no_rows_cta demo_fresh)

end
